theory Spec2Isabelle
  imports Complex_Main "HOL-Library.Monad_Syntax"
begin

section \<open>Numbers, objects and the clock\<close>

text \<open>
  JavaScript numbers are modelled as reals: the development is about the comparisons and
  the control flow of the workers, not about the rounding of IEEE-754 doubles. The confidences
  of the examples that sit on a boundary (0.25, 0.5, 0.75, 0, 1) are dyadic, so that the
  arithmetic on them is exact in doubles as well.

  A JavaScript division never raises. To make the divisors visible, \<open>js_div\<close> returns
  \<open>None\<close> where the divisor is zero (where JavaScript would produce \<open>NaN\<close> or
  an infinity); a function that divides threads this through the option monad.
\<close>

definition js_div :: "real \<Rightarrow> real \<Rightarrow> real option" where
  "js_div a b = (if b = 0 then None else Some (a / b))"

text \<open>
  The one place where the workers compute with a value that is not a number is the share of
  the majority verdict (see \<open>count_verdict\<close> below): there the result is a number or
  \<open>NaN\<close>. Every comparison with \<open>NaN\<close> is false. (\<open>JSON.stringify\<close> writes \<open>NaN\<close> as
  \<open>null\<close>; the stored and the returned copies of a snapshot are modelled by the value itself.)
\<close>

datatype jsnum = Num real | NaN

definition at_least :: "jsnum \<Rightarrow> real \<Rightarrow> bool" where
  "at_least x t = (case x of Num r \<Rightarrow> r \<ge> t | NaN \<Rightarrow> False)"

text \<open>
  A plain object (\<open>{}\<close>) used as a dictionary. Its own properties are an association list
  in the order of their creation; \<open>obj_set\<close> is the assignment \<open>obj[k] = v\<close> for a key that
  is not \<open>__proto__\<close>.
\<close>

fun obj_set :: "(string \<times> 'v) list \<Rightarrow> string \<Rightarrow> 'v \<Rightarrow> (string \<times> 'v) list" where
  "obj_set [] k v = [(k, v)]"
| "obj_set ((k', v') # rest) k v =
     (if k' = k then (k', v) # rest else (k', v') # obj_set rest k v)"

text \<open>
  A read \<open>obj[k]\<close> of a key that the object does not own goes to \<open>Object.prototype\<close>, whose
  members are functions, apart from the accessor \<open>__proto__\<close>: reading \<open>__proto__\<close> gives
  the prototype object, and assigning a string or a number to it does nothing.
\<close>

definition function_names :: "string list" where
  "function_names =
     [''constructor'', ''hasOwnProperty'', ''isPrototypeOf'', ''propertyIsEnumerable'',
      ''toLocaleString'', ''toString'', ''valueOf'', ''__defineGetter__'', ''__defineSetter__'',
      ''__lookupGetter__'', ''__lookupSetter__'']"

definition inherited_function :: "string \<Rightarrow> bool" where
  "inherited_function k = (k \<in> set function_names)"

definition inherited :: "string \<Rightarrow> bool" where
  "inherited k = (inherited_function k \<or> k = ''__proto__'')"

text \<open>
  \<open>Object.entries\<close> lists the own properties: first the keys that are array indices (the
  canonical decimal numerals below \<open>2\<^sup>3\<^sup>2 - 1\<close>) in ascending order, then the other keys in
  the order of their creation.
\<close>

definition digit_char :: "char \<Rightarrow> bool" where
  "digit_char c = (c \<in> set ''0123456789'')"

definition digits_value :: "string \<Rightarrow> nat" where
  "digits_value s = foldl (\<lambda>n c. 10 * n + (of_char c - 48)) 0 s"

definition is_array_index :: "string \<Rightarrow> bool" where
  "is_array_index s =
     (s \<noteq> [] \<and> list_all digit_char s \<and> (s = ''0'' \<or> hd s \<noteq> CHR ''0'')
      \<and> digits_value s < 4294967295)"

definition entries :: "(string \<times> 'v) list \<Rightarrow> (string \<times> 'v) list" where
  "entries obj =
     sort_key (\<lambda>e. digits_value (fst e)) (filter (\<lambda>e. is_array_index (fst e)) obj)
     @ filter (\<lambda>e. \<not> is_array_index (fst e)) obj"

section \<open>vetproof-consensus.js: the ShieldConsensus durable object\<close>

text \<open>A row of the \<open>votes\<close> table (primary key \<open>model_id\<close>).\<close>

record vote_row =
  model_id :: string
  verdict :: string
  confidence :: real
  coherence_score :: real
  reasoning :: string
  timestamp :: string

text \<open>
  A value of the object \<open>verdictCounts\<close>: a number, or the string that comes out when 1 is
  added to a function or to an object (\<open>toString\<close> of the function, followed by a digit).
\<close>

datatype 'n tally = Counted 'n | Text

text \<open>The object returned by \<open>calculateConsensus\<close> when there is at least one vote.\<close>

record snapshot =
  status :: string
  verdict_cs :: string
  agreement_pct :: jsnum
  bft_threshold :: real
  avg_confidence :: real
  avg_coherence :: real
  confidence_std_dev :: real
  halt_triggered :: bool
  total_votes :: nat
  fault_tolerance :: nat
  verdict_distribution :: "(string \<times> nat tally) list"
  timestamp_cs :: string

datatype consensus = Pending string | Computed snapshot

text \<open>
  The counting loop: \<open>verdictCounts[vote.verdict] = (verdictCounts[vote.verdict] || 0) + 1\<close>.
  For a verdict that names a function of \<open>Object.prototype\<close> the first read gives the
  function, which is truthy, and the sum is a string; from then on the own property holds a
  string and stays one. For the verdict \<open>__proto__\<close> the read gives an object and the
  assignment of the string does nothing: no own property is created.
\<close>

definition count_verdict ::
  "(string \<times> nat tally) list \<Rightarrow> string \<Rightarrow> (string \<times> nat tally) list" where
  "count_verdict counts k =
     (if k = ''__proto__'' then counts
      else obj_set counts k
             (case map_of counts k of
                Some (Counted c) \<Rightarrow> Counted (c + 1)
              | Some Text \<Rightarrow> Text
              | None \<Rightarrow> if inherited_function k then Text else Counted 1))"

definition verdictCounts :: "vote_row list \<Rightarrow> (string \<times> nat tally) list" where
  "verdictCounts votes = foldl (\<lambda>counts v. count_verdict counts (verdict v)) [] votes"

text \<open>
  \<open>Object.entries(verdictCounts).sort(([, a], [, b]) => b - a)\<close>. \<open>sorts_after x y\<close> says
  that the comparator is positive on \<open>(x, y)\<close>: both values are numbers and that of \<open>y\<close> is
  the greater. Where a value is a string the difference is \<open>NaN\<close>, which the sort treats as
  0. The sort is stable; it is modelled as the insertion sort that keeps \<open>x\<close> before every
  later entry on which the comparator is not positive. (For entries that are all numbers this
  is the one stable sort by descending count. With a string among them the comparator is not
  consistent and the order that an engine produces is not fixed by the language.)
\<close>

definition sorts_after :: "string \<times> nat tally \<Rightarrow> string \<times> nat tally \<Rightarrow> bool" where
  "sorts_after x y =
     (case (snd x, snd y) of (Counted a, Counted b) \<Rightarrow> a < b | _ \<Rightarrow> False)"

fun insert_entry ::
  "string \<times> nat tally \<Rightarrow> (string \<times> nat tally) list \<Rightarrow> (string \<times> nat tally) list" where
  "insert_entry x [] = [x]"
| "insert_entry x (y # ys) = (if sorts_after x y then y # insert_entry x ys else x # y # ys)"

definition sort_entries :: "(string \<times> nat tally) list \<Rightarrow> (string \<times> nat tally) list" where
  "sort_entries es = foldr insert_entry es []"

text \<open>\<open>majorityCount / n\<close>, where the count may be a string.\<close>

definition share :: "nat tally \<Rightarrow> real \<Rightarrow> jsnum option" where
  "share c n =
     (case c of
        Counted k \<Rightarrow> map_option Num (js_div (real k) n)
      | Text \<Rightarrow> if n = 0 then None else Some NaN)"

text \<open>
  How a call can fail: an SQL statement throws; a property is read of \<open>undefined\<close>
  (a \<open>TypeError\<close>); and, as a marker of the model only, a division by zero.
\<close>

datatype fault = Sql_error | TypeError | Division_by_zero

text \<open>
  \<open>calculateConsensus(votes)\<close>; \<open>now\<close> is the reading of the clock that becomes the
  \<open>timestamp\<close> field. When \<open>verdictCounts\<close> has no own property, the first element of the
  sorted entries is \<open>undefined\<close> and \<open>majorityVerdict[1]\<close> throws.
\<close>

definition calculateConsensus :: "string \<Rightarrow> vote_row list \<Rightarrow> fault + consensus" where
  "calculateConsensus now votes =
     (if length votes = 0 then Inr (Pending ''No votes yet'')
      else
        let n = length votes;
            f = (n - 1) div 3;
            counts = verdictCounts votes;
            totalConfidence = foldl (\<lambda>s v. s + confidence v) 0 votes;
            totalCoherence = foldl (\<lambda>s v. s + coherence_score v) 0 votes
        in case sort_entries (entries counts) of
             [] \<Rightarrow> Inl TypeError
           | majorityVerdict # _ \<Rightarrow>
               (case
                  do {
                    let majorityCount = snd majorityVerdict;
                    majorityPct \<leftarrow> share majorityCount (real n);
                    bftThreshold \<leftarrow> js_div (real (2 * n + 2)) (real (3 * n));
                    let hasConsensus = at_least majorityPct bftThreshold;
                    avgConfidence \<leftarrow> js_div totalConfidence (real n);
                    avgCoherence \<leftarrow> js_div totalCoherence (real n);
                    confidenceVariance \<leftarrow>
                      js_div (foldl (\<lambda>sum v. sum + (confidence v - avgConfidence)\<^sup>2) 0 votes)
                             (real n);
                    let confidenceStdDev = sqrt confidenceVariance;
                    let haltTriggered = (confidenceStdDev > 0.25);
                    Some \<lparr>
                      status = (if hasConsensus then ''CONSENSUS'' else ''DISAGREEMENT''),
                      verdict_cs = fst majorityVerdict,
                      agreement_pct = majorityPct,
                      bft_threshold = bftThreshold,
                      avg_confidence = avgConfidence,
                      avg_coherence = avgCoherence,
                      confidence_std_dev = confidenceStdDev,
                      halt_triggered = haltTriggered,
                      total_votes = n,
                      fault_tolerance = f,
                      verdict_distribution = counts,
                      timestamp_cs = now \<rparr>
                  }
                of None \<Rightarrow> Inl Division_by_zero
                 | Some s \<Rightarrow> Inr (Computed s)))"

text \<open>
  The vote object of a request. A field that the JSON body does not carry is \<open>None\<close>;
  a field that is present holds a string (\<open>verdict\<close>, \<open>reasoning\<close>) or a number.
\<close>

record vote_in =
  verdict_in :: "string option"
  confidence_in :: "real option"
  coherence_score_in :: "real option"
  reasoning_in :: "string option"

text \<open>
  The storage of one durable object: the \<open>votes\<close> table in rowid order, and the row
  \<open>'consensus'\<close> of the \<open>state\<close> table.
\<close>

record do_state =
  votes_table :: "vote_row list"
  state_consensus :: "consensus option"

text \<open>
  \<open>INSERT OR REPLACE INTO votes\<close>: the row with the same primary key is deleted and the
  new row gets a fresh rowid, after all the others.
\<close>

definition insert_or_replace :: "vote_row \<Rightarrow> vote_row list \<Rightarrow> vote_row list" where
  "insert_or_replace r rows = filter (\<lambda>x. model_id x \<noteq> model_id r) rows @ [r]"

text \<open>
  \<open>SELECT * FROM votes ORDER BY confidence DESC\<close>. SQL leaves the order of rows with equal
  confidence open; the model keeps them in rowid order (a stable sort).
\<close>

definition select_votes :: "vote_row list \<Rightarrow> vote_row list" where
  "select_votes rows = sort_key (\<lambda>r. - confidence r) rows"

record submit_result =
  vote_accepted :: bool
  total_votes_sr :: nat
  consensus_sr :: consensus
  votes_sr :: "vote_row list"

text \<open>
  The row that the insertion binds: a missing \<open>reasoning\<close> is stored as the empty string,
  and \<open>sql_now\<close> is the \<open>datetime('now')\<close> default of the \<open>timestamp\<close> column.
\<close>

definition stored_row ::
  "string \<Rightarrow> string \<Rightarrow> string \<Rightarrow> real \<Rightarrow> real \<Rightarrow> string option \<Rightarrow> vote_row" where
  "stored_row sql_now modelId v c k r =
     \<lparr> model_id = modelId, verdict = v, confidence = c, coherence_score = k,
       reasoning = (case r of None \<Rightarrow> [] | Some x \<Rightarrow> x), timestamp = sql_now \<rparr>"

text \<open>
  \<open>submitVote(modelId, vote)\<close>: what the call returns or throws, and the storage it leaves.
  The columns \<open>verdict\<close>, \<open>confidence\<close> and \<open>coherence_score\<close> are \<open>NOT NULL\<close>: binding a
  missing value makes the first statement throw, before anything is stored. When
  \<open>calculateConsensus\<close> throws, the row is already in the table and the stored consensus is
  the old one. \<open>now\<close> is the clock read by \<open>calculateConsensus\<close>.
\<close>

definition submitVote ::
  "string \<Rightarrow> string \<Rightarrow> string \<Rightarrow> vote_in \<Rightarrow> do_state \<Rightarrow> (fault + submit_result) \<times> do_state" where
  "submitVote sql_now now modelId vote st =
     (case (verdict_in vote, confidence_in vote, coherence_score_in vote) of
        (Some v, Some c, Some k) \<Rightarrow>
          let rows = insert_or_replace (stored_row sql_now modelId v c k (reasoning_in vote))
                       (votes_table st);
              allVotes = select_votes rows
          in (case calculateConsensus now allVotes of
                Inl e \<Rightarrow> (Inl e, st\<lparr> votes_table := rows \<rparr>)
              | Inr consensus \<Rightarrow>
                  (Inr \<lparr> vote_accepted = True, total_votes_sr = length allVotes,
                         consensus_sr = consensus, votes_sr = allVotes \<rparr>,
                   \<lparr> votes_table = rows, state_consensus = Some consensus \<rparr>))
      | _ \<Rightarrow> (Inl Sql_error, st))"

text \<open>\<open>getState()\<close>: the rows (in table order), the stored consensus and the row count.\<close>

definition getState :: "do_state \<Rightarrow> vote_row list \<times> consensus option \<times> nat" where
  "getState st = (votes_table st, state_consensus st, length (votes_table st))"

subsection \<open>The router's vote handler\<close>

record vote_request =
  http_method :: string
  claim_id_rq :: "string option"
  model_id_rq :: "string option"
  vote_rq :: "vote_in option"

text \<open>The body of an answer: an error message, the message of an exception, or the result.\<close>

datatype response_body = Error_body string | Exception_body | Vote_body submit_result

record response =
  status_code :: nat
  body :: response_body

text \<open>
  The bindings of the worker. A binding of \<open>PROOF_STORAGE\<close> (R2), \<open>VERIFICATION_CACHE\<close>
  (KV) or \<open>AUDIT_DB\<close> (D1) is absent, or its write throws, or it holds what has been written
  so far: the archived objects by key, the cached snapshots by key, the audit rows.
\<close>

datatype 'a binding = Unbound | Failing | Bound 'a

record archive =
  claim_id_ar :: string
  consensus_ar :: consensus
  votes_ar :: "vote_row list"
  archived_at_ar :: string

record audit_entry =
  proof_id_ae :: string
  claim_data_ae :: "string \<times> vote_in"
  verification_result_ae :: consensus

record env =
  SHIELD_CONSENSUS :: "string \<Rightarrow> do_state"
  PROOF_STORAGE :: "(string \<Rightarrow> archive option) binding"
  VERIFICATION_CACHE :: "(string \<Rightarrow> consensus option) binding"
  AUDIT_DB :: "audit_entry list binding"

text \<open>\<open>if (env.X) await env.X.put(...)\<close>: \<open>None\<close> when the write throws.\<close>

definition put_if_bound :: "'a binding \<Rightarrow> ('a \<Rightarrow> 'a) \<Rightarrow> 'a binding option" where
  "put_if_bound b f =
     (case b of Unbound \<Rightarrow> Some Unbound | Failing \<Rightarrow> None | Bound x \<Rightarrow> Some (Bound (f x)))"

text \<open>\<open>result.consensus?.status\<close>\<close>

definition status_of :: "consensus \<Rightarrow> string" where
  "status_of c = (case c of Pending _ \<Rightarrow> ''PENDING'' | Computed s \<Rightarrow> status s)"

definition bad_request :: response where
  "bad_request =
     \<lparr> status_code = 400, body = Error_body ''claim_id, model_id, and vote object required'' \<rparr>"

definition server_error :: response where
  "server_error = \<lparr> status_code = 500, body = Exception_body \<rparr>"

text \<open>
  \<open>handleConsensusVote\<close>, with the durable objects of the namespace (one per claim id,
  created on first use). An exception of the durable object or of a write to R2, KV or D1
  reaches the \<open>catch\<close> clause of the router, which answers 500; what was written before the
  exception stays written. \<open>archived\<close> is the clock reading of the archive.
\<close>

definition handleConsensusVote ::
  "string \<Rightarrow> string \<Rightarrow> string \<Rightarrow> vote_request \<Rightarrow> env \<Rightarrow> response \<times> env" where
  "handleConsensusVote sql_now now archived rq e =
     (if http_method rq \<noteq> ''POST''
      then (\<lparr> status_code = 405, body = Error_body ''POST required'' \<rparr>, e)
      else
        (case (claim_id_rq rq, model_id_rq rq, vote_rq rq) of
           (Some claim, Some model, Some vote) \<Rightarrow>
             if claim = [] \<or> model = [] then (bad_request, e)
             else
               (case submitVote sql_now now model vote (SHIELD_CONSENSUS e claim) of
                  (Inl x, st') \<Rightarrow>
                    (server_error, e\<lparr> SHIELD_CONSENSUS := (SHIELD_CONSENSUS e)(claim := st') \<rparr>)
                | (Inr result, st') \<Rightarrow>
                    let e0 = e\<lparr> SHIELD_CONSENSUS := (SHIELD_CONSENSUS e)(claim := st') \<rparr>;
                        ok = (\<lparr> status_code = 200, body = Vote_body result \<rparr>)
                    in if status_of (consensus_sr result) = ''CONSENSUS''
                       then
                         (case put_if_bound (PROOF_STORAGE e0)
                                 (\<lambda>b. b(''proofs/'' @ claim @ ''.json'' \<mapsto>
                                    \<lparr> claim_id_ar = claim, consensus_ar = consensus_sr result,
                                      votes_ar = votes_sr result, archived_at_ar = archived \<rparr>)) of
                            None \<Rightarrow> (server_error, e0)
                          | Some r2 \<Rightarrow>
                              let e1 = e0\<lparr> PROOF_STORAGE := r2 \<rparr>
                              in (case put_if_bound (VERIFICATION_CACHE e1)
                                         (\<lambda>kv. kv(claim \<mapsto> consensus_sr result)) of
                                    None \<Rightarrow> (server_error, e1)
                                  | Some kv \<Rightarrow>
                                      let e2 = e1\<lparr> VERIFICATION_CACHE := kv \<rparr>
                                      in (case put_if_bound (AUDIT_DB e2)
                                                 (\<lambda>rows. rows @
                                                    [\<lparr> proof_id_ae = claim, claim_data_ae = (model, vote),
                                                       verification_result_ae = consensus_sr result \<rparr>]) of
                                            None \<Rightarrow> (server_error, e2)
                                          | Some db \<Rightarrow> (ok, e2\<lparr> AUDIT_DB := db \<rparr>))))
                       else (ok, e0))
         | _ \<Rightarrow> (bad_request, e)))"

section \<open>vetproof-workflow.js: the VetProofPipeline workflow\<close>

text \<open>
  JSON values, for the objects the workflow assembles and stores. A property read of a key
  that an object does not have gives \<open>undefined\<close>.
\<close>

datatype json =
  JUndefined | JNull | JBool bool | JNum real | JStr string
  | JArr "json list" | JObj "(string \<times> json) list"

definition js_get :: "json \<Rightarrow> string \<Rightarrow> json" where
  "js_get j k =
     (case j of
        JObj kvs \<Rightarrow> (case map_of kvs k of Some v \<Rightarrow> v | None \<Rightarrow> JUndefined)
      | _ \<Rightarrow> JUndefined)"

definition opt_bool :: "bool option \<Rightarrow> json" where
  "opt_bool b = (case b of None \<Rightarrow> JUndefined | Some x \<Rightarrow> JBool x)"

definition opt_num :: "real option \<Rightarrow> json" where
  "opt_num r = (case r of None \<Rightarrow> JUndefined | Some x \<Rightarrow> JNum x)"

text \<open>Truthiness of a flag that may be \<open>undefined\<close>.\<close>

definition truthy :: "bool option \<Rightarrow> bool" where
  "truthy b = (case b of None \<Rightarrow> False | Some x \<Rightarrow> x)"

subsection \<open>Step 4: VERIFY\<close>

record verifier =
  id_m :: string
  name_m :: string
  weight_m :: real

definition models :: "verifier list" where
  "models =
     [\<lparr> id_m = ''@cf/meta/llama-3.1-8b-instruct'', name_m = ''llama-3.1-8b'', weight_m = 1.0 \<rparr>,
      \<lparr> id_m = ''@cf/qwen/qwen1.5-14b-chat-awq'', name_m = ''qwen-14b'', weight_m = 1.2 \<rparr>]"

text \<open>
  The object parsed from a model's answer: \<open>verdict\<close> and \<open>confidence\<close> may be missing;
  \<open>cfr_sections\<close> and \<open>nexus_strength\<close> are only copied.
\<close>

record parsed =
  verdict_p :: "string option"
  confidence_p :: "real option"
  cfr_sections_p :: json
  nexus_strength_p :: json

text \<open>
  One entry of \<open>Promise.allSettled\<close>: the call was rejected, or it was fulfilled with
  \<open>parsed\<close> an object or \<open>null\<close>.
\<close>

datatype settled = Rejected | Fulfilled "parsed option"

record model_vote =
  model_mv :: string
  weight_mv :: real
  parsed_mv :: parsed

definition successfulVotes :: "(string \<Rightarrow> settled) \<Rightarrow> model_vote list" where
  "successfulVotes respond =
     List.map_filter
       (\<lambda>m. case respond (id_m m) of
               Fulfilled (Some p) \<Rightarrow>
                 Some \<lparr> model_mv = name_m m, weight_mv = weight_m m, parsed_mv = p \<rparr>
             | _ \<Rightarrow> None)
       models"

definition failedVotes :: "(string \<Rightarrow> settled) \<Rightarrow> nat" where
  "failedVotes respond =
     length (filter (\<lambda>m. case respond (id_m m) of Fulfilled (Some p) \<Rightarrow> False | _ \<Rightarrow> True) models)"

text \<open>\<open>vote.parsed.confidence || 0\<close> and \<open>vote.parsed.verdict || 'UNKNOWN'\<close>.\<close>

definition confidence_or_0 :: "model_vote \<Rightarrow> real" where
  "confidence_or_0 v = (case confidence_p (parsed_mv v) of None \<Rightarrow> 0 | Some c \<Rightarrow> c)"

definition verdict_or_unknown :: "model_vote \<Rightarrow> string" where
  "verdict_or_unknown v =
     (case verdict_p (parsed_mv v) of
        None \<Rightarrow> ''UNKNOWN''
      | Some s \<Rightarrow> if s = [] then ''UNKNOWN'' else s)"

text \<open>
  \<open>verdictCounts[v] = (verdictCounts[v] || 0) + w\<close>, on an object literal as in
  \<open>count_verdict\<close>.
\<close>

definition add_weight ::
  "(string \<times> real tally) list \<Rightarrow> string \<Rightarrow> real \<Rightarrow> (string \<times> real tally) list" where
  "add_weight counts k w =
     (if k = ''__proto__'' then counts
      else obj_set counts k
             (case map_of counts k of
                Some (Counted c) \<Rightarrow> Counted (c + w)
              | Some Text \<Rightarrow> Text
              | None \<Rightarrow> if inherited_function k then Text else Counted (0 + w)))"

definition weightedCounts :: "model_vote list \<Rightarrow> (string \<times> real tally) list" where
  "weightedCounts vs =
     foldl (\<lambda>counts v. add_weight counts (verdict_or_unknown v) (weight_mv v)) [] vs"

text \<open>
  The loop over \<open>Object.entries(verdictCounts)\<close> that finds the majority verdict: the first
  entry of greatest weight. The comparison \<open>weight > maxWeight\<close> is false for a weight that
  is a string (it does not convert to a number).
\<close>

definition majority :: "(string \<times> real tally) list \<Rightarrow> string \<times> real" where
  "majority es =
     foldl (\<lambda>(majorityVerdict, maxWeight) (verdict, weight).
              case weight of
                Counted w \<Rightarrow> if w > maxWeight then (verdict, w) else (majorityVerdict, maxWeight)
              | Text \<Rightarrow> (majorityVerdict, maxWeight))
           (''NO_CONSENSUS'', 0) es"

record verification =
  consensus :: string
  consensus_reached :: bool
  agreement_ratio :: real
  bft_threshold_wf :: real
  weighted_confidence :: real
  confidence_std_dev_wf :: real
  constitutional_halt :: bool
  votes_wf :: "model_vote list"
  failed_models :: nat

text \<open>
  The result of the step: the early \<open>NO_QUORUM\<close> object (which has no other field than
  \<open>votes: []\<close> and \<open>failed_models\<close>), or the aggregate.
\<close>

datatype verify_result = NO_QUORUM nat | Aggregated verification

definition aggregate :: "model_vote list \<Rightarrow> nat \<Rightarrow> verify_result option" where
  "aggregate vs failed =
     (if length vs = 0 then Some (NO_QUORUM failed)
      else
        let totalWeight = foldl (\<lambda>s v. s + weight_mv v) 0 vs;
            weightedConfidence = foldl (\<lambda>s v. s + confidence_or_0 v * weight_mv v) 0 vs;
            counts = weightedCounts vs
        in do {
          avgConfidence \<leftarrow>
            (if totalWeight > 0 then js_div weightedConfidence totalWeight else Some 0);
          let (majorityVerdict, maxWeight) = majority (entries counts);
          agreementRatio \<leftarrow> js_div maxWeight totalWeight;
          let bftThreshold = 2 / 3;
          let consensusReached = (agreementRatio \<ge> bftThreshold);
          let confidences = map confidence_or_0 vs;
          mean \<leftarrow> js_div (foldl (\<lambda>a b. a + b) 0 confidences) (real (length confidences));
          variance \<leftarrow>
            js_div (foldl (\<lambda>sum c. sum + (c - mean)\<^sup>2) 0 confidences)
                   (real (length confidences));
          let stdDev = sqrt variance;
          let constitutionalHalt = (stdDev > 0.25);
          Some (Aggregated \<lparr>
            consensus = (if consensusReached then majorityVerdict else ''NO_CONSENSUS''),
            consensus_reached = consensusReached,
            agreement_ratio = agreementRatio,
            bft_threshold_wf = bftThreshold,
            weighted_confidence = avgConfidence,
            confidence_std_dev_wf = stdDev,
            constitutional_halt = constitutionalHalt,
            votes_wf = vs,
            failed_models = failed \<rparr>)
        })"

definition verify :: "(string \<Rightarrow> settled) \<Rightarrow> verify_result option" where
  "verify respond = aggregate (successfulVotes respond) (failedVotes respond)"

text \<open>Property reads on the result of the step; \<open>None\<close> is \<open>undefined\<close>.\<close>

definition consensus_of :: "verify_result \<Rightarrow> string" where
  "consensus_of r = (case r of NO_QUORUM _ \<Rightarrow> ''NO_QUORUM'' | Aggregated v \<Rightarrow> consensus v)"

definition consensus_reached_of :: "verify_result \<Rightarrow> bool option" where
  "consensus_reached_of r =
     (case r of NO_QUORUM _ \<Rightarrow> None | Aggregated v \<Rightarrow> Some (consensus_reached v))"

definition agreement_ratio_of :: "verify_result \<Rightarrow> real option" where
  "agreement_ratio_of r =
     (case r of NO_QUORUM _ \<Rightarrow> None | Aggregated v \<Rightarrow> Some (agreement_ratio v))"

definition weighted_confidence_of :: "verify_result \<Rightarrow> real option" where
  "weighted_confidence_of r =
     (case r of NO_QUORUM _ \<Rightarrow> None | Aggregated v \<Rightarrow> Some (weighted_confidence v))"

definition confidence_std_dev_of :: "verify_result \<Rightarrow> real option" where
  "confidence_std_dev_of r =
     (case r of NO_QUORUM _ \<Rightarrow> None | Aggregated v \<Rightarrow> Some (confidence_std_dev_wf v))"

definition constitutional_halt_of :: "verify_result \<Rightarrow> bool option" where
  "constitutional_halt_of r =
     (case r of NO_QUORUM _ \<Rightarrow> None | Aggregated v \<Rightarrow> Some (constitutional_halt v))"

definition model_count_of :: "verify_result \<Rightarrow> nat" where
  "model_count_of r = (case r of NO_QUORUM _ \<Rightarrow> 0 | Aggregated v \<Rightarrow> length (votes_wf v))"

subsection \<open>Step 5: DETECT\<close>

record checks =
  confidence_anomaly :: "bool option"
  no_consensus :: bool
  low_confidence :: bool
  high_disagreement :: bool
  low_evidence_match :: bool

record detection =
  checks_d :: checks
  flag_count :: nat
  trust_score :: real
  halt_required :: "bool option"

text \<open>
  A comparison with \<open>undefined\<close> is false, \<open>!undefined\<close> is true, and
  \<open>flagCount >= 3 || x\<close> is \<open>x\<close> itself when the count is below 3.
\<close>

definition detect :: "verify_result \<Rightarrow> real \<Rightarrow> detection" where
  "detect verification similarity =
     (let checks = \<lparr>
            confidence_anomaly = constitutional_halt_of verification,
            no_consensus = (\<not> truthy (consensus_reached_of verification)),
            low_confidence =
              (case weighted_confidence_of verification of None \<Rightarrow> False | Some c \<Rightarrow> c < 0.5),
            high_disagreement =
              (case confidence_std_dev_of verification of None \<Rightarrow> False | Some d \<Rightarrow> d > 0.3),
            low_evidence_match = (similarity < 0.4) \<rparr>;
          flagCount =
            length (filter (\<lambda>b. b)
              [truthy (confidence_anomaly checks), no_consensus checks, low_confidence checks,
               high_disagreement checks, low_evidence_match checks]);
          trustScore = max 0 (1.0 - real flagCount * 0.2)
      in \<lparr> checks_d = checks, flag_count = flagCount, trust_score = trustScore,
            halt_required =
              (if flagCount \<ge> 3 then Some True else constitutional_halt_of verification) \<rparr>)"

subsection \<open>Step 6: SIGN\<close>

text \<open>
  What the earlier steps and the clock hand to the workflow: the result of the sanitize step,
  the similarity of the embed step, the number of similar claims of the search step, the
  settled model calls, and the two clock readings of the sign step.
\<close>

record pipeline_input =
  claim_id :: string
  sanitized :: json
  claim_evidence_similarity :: real
  similar_claims_found :: nat
  respond :: "string \<Rightarrow> settled"
  timestamp_in :: string
  duration_ms :: real

text \<open>An R2 bucket: the object stored under each key.\<close>

type_synonym bucket = "string \<Rightarrow> json option"

text \<open>
  The bundle before it is hashed. \<open>sha256\<close> and \<open>JSON.stringify\<close> are functions of
  the platform and are parameters of the model.
\<close>

definition proofBundle :: "pipeline_input \<Rightarrow> verify_result \<Rightarrow> detection \<Rightarrow> json" where
  "proofBundle inp verification detection =
     JObj [
       (''claim_id'', JStr (claim_id inp)),
       (''pipeline_version'', JStr ''2.0.0''),
       (''steps'', JObj [
          (''sanitize'', JObj [
             (''has_pii'', js_get (sanitized inp) ''has_pii''),
             (''pii_types'', js_get (sanitized inp) ''pii_types''),
             (''original_hash'', js_get (sanitized inp) ''original_hash'')]),
          (''embed'', JObj [
             (''similarity'', JNum (claim_evidence_similarity inp)),
             (''vectors_stored'', JBool True)]),
          (''search'', JObj [
             (''similar_claims_found'', JNum (real (similar_claims_found inp)))]),
          (''verify'', JObj [
             (''consensus'', JStr (consensus_of verification)),
             (''confidence'', opt_num (weighted_confidence_of verification)),
             (''agreement_ratio'', opt_num (agreement_ratio_of verification)),
             (''constitutional_halt'', opt_bool (constitutional_halt_of verification)),
             (''model_count'', JNum (real (model_count_of verification)))]),
          (''detect'', JObj [
             (''trust_score'', JNum (trust_score detection)),
             (''halt_required'', opt_bool (halt_required detection)),
             (''flags'', JNum (real (flag_count detection)))])]),
       (''verdict'',
          JStr (if truthy (halt_required detection) then ''HALTED_FOR_REVIEW''
                else consensus_of verification)),
       (''final_confidence'',
          (if truthy (halt_required detection) then JNum 0
           else opt_num (weighted_confidence_of verification))),
       (''trust_score'', JNum (trust_score detection)),
       (''timestamp'', JStr (timestamp_in inp)),
       (''duration_ms'', JNum (duration_ms inp))]"

text \<open>\<open>proofBundle.proof_hash = proofHash\<close>: a new last property.\<close>

definition with_proof_hash :: "json \<Rightarrow> string \<Rightarrow> json" where
  "with_proof_hash bundle h =
     (case bundle of JObj kvs \<Rightarrow> JObj (obj_set kvs ''proof_hash'' (JStr h)) | _ \<Rightarrow> bundle)"

text \<open>
  The sign step: the bundle, and the bucket after the \<open>put\<close> (when \<open>PROOF_STORAGE\<close> is
  bound). The audit row and the KV copy of the bundle are left out.
\<close>

definition sign ::
  "(string \<Rightarrow> string) \<Rightarrow> (json \<Rightarrow> string) \<Rightarrow> pipeline_input \<Rightarrow> verify_result \<Rightarrow> detection
     \<Rightarrow> bucket option \<Rightarrow> json \<times> bucket option" where
  "sign sha256 stringify inp verification detection storage =
     (let bundle0 = proofBundle inp verification detection;
          proofHash = sha256 (stringify bundle0);
          bundle = with_proof_hash bundle0 proofHash
      in (bundle,
          (case storage of
             None \<Rightarrow> None
           | Some b \<Rightarrow>
               Some (b(''proofs/'' @ claim_id inp @ ''/'' @ proofHash @ ''.json'' \<mapsto> bundle)))))"

text \<open>\<open>VetProofPipeline.run\<close> from the verify step on.\<close>

definition VetProofPipeline_run ::
  "(string \<Rightarrow> string) \<Rightarrow> (json \<Rightarrow> string) \<Rightarrow> pipeline_input \<Rightarrow> bucket option
     \<Rightarrow> (json \<times> bucket option) option" where
  "VetProofPipeline_run sha256 stringify inp storage =
     do {
       verification \<leftarrow> verify (respond inp);
       let detection = detect verification (claim_evidence_similarity inp);
       Some (sign sha256 stringify inp verification detection storage)
     }"

subsection \<open>vetproof-consensus.js: the queue consumer's sign stage\<close>

text \<open>
  \<open>processSign(claimId, payload, env)\<close>, without the KV copy. The clock is read twice: for
  the content that is hashed (\<open>signed_at\<close>) and for the stored record (\<open>stored_at\<close>).
\<close>

definition processSign ::
  "(string \<Rightarrow> string) \<Rightarrow> (json \<Rightarrow> string) \<Rightarrow> string \<Rightarrow> string \<Rightarrow> string \<Rightarrow> json
     \<Rightarrow> bucket option \<Rightarrow> bucket option" where
  "processSign sha256 stringify signed_at stored_at claimId payload storage =
     (let proofContent =
            stringify (JObj [(''claim_id'', JStr claimId), (''payload'', payload),
                             (''signed_at'', JStr signed_at)]);
          proofHash = sha256 proofContent
      in case storage of
           None \<Rightarrow> None
         | Some b \<Rightarrow>
             Some (b(''proofs/'' @ claimId @ ''.json'' \<mapsto>
               JObj [(''claim_id'', JStr claimId),
                     (''proof_hash'', JStr proofHash),
                     (''pipeline_complete'', JBool True),
                     (''stages_completed'',
                        JArr [JStr ''SANITIZE'', JStr ''GENERATE'', JStr ''VERIFY'',
                              JStr ''DETECT'', JStr ''SIGN'']),
                     (''final_payload'', payload),
                     (''signed_at'', JStr stored_at)])))"

section \<open>proof-agent.js: ProofAgent.verifyClaimInternal\<close>

text \<open>
  The object parsed from a model's answer. \<open>confidence_r\<close> is \<open>None\<close> where
  \<open>parseFloat\<close> gives \<open>NaN\<close>.
\<close>

record reply =
  verdict_r :: "string option"
  confidence_r :: "real option"
  reasoning_r :: "string option"

text \<open>A model call throws, or answers with parsable JSON or without.\<close>

datatype model_call = Threw | Answered "reply option"

record agent_vote =
  model_av :: string
  verdict_av :: string
  confidence_av :: real
  reasoning_av :: string

text \<open>\<open>Math.min(1.0, Math.max(0.0, parseFloat(parsed.confidence) || 0.5))\<close>\<close>

definition clamp_confidence :: "real option \<Rightarrow> real" where
  "clamp_confidence c =
     min 1.0 (max 0.0 (case c of None \<Rightarrow> 0.5 | Some x \<Rightarrow> if x = 0 then 0.5 else x))"

definition collect_votes :: "string list \<Rightarrow> (string \<Rightarrow> model_call) \<Rightarrow> agent_vote list" where
  "collect_votes ms call =
     concat (map (\<lambda>model.
       case call model of
         Threw \<Rightarrow>
           [\<lparr> model_av = model, verdict_av = ''ERROR'', confidence_av = 0,
               reasoning_av = ''Model error'' \<rparr>]
       | Answered None \<Rightarrow> []
       | Answered (Some parsed) \<Rightarrow>
           [\<lparr> model_av = model,
               verdict_av = (case verdict_r parsed of None \<Rightarrow> ''UNVERIFIED''
                             | Some s \<Rightarrow> if s = [] then ''UNVERIFIED'' else s),
               confidence_av = clamp_confidence (confidence_r parsed),
               reasoning_av = (case reasoning_r parsed of None \<Rightarrow> [] | Some s \<Rightarrow> s) \<rparr>]) ms)"

text \<open>\<open>parseFloat(x.toFixed(4))\<close>, for \<open>x\<close> that is not negative.\<close>

definition toFixed4 :: "real \<Rightarrow> real" where
  "toFixed4 x = real_of_int (round (x * 10000)) / 10000"

text \<open>
  The fields of the result that come from the votes (the claim, its identifier, the proof
  hash and the time stamp are left out), and \<open>avg_confidence_pa\<close>, the unrounded mean that
  is written to the history table.
\<close>

record agent_result =
  verdict_pa :: string
  confidence_pa :: real
  std_dev :: real
  constitutional_halt_pa :: bool
  quorum :: bool
  votes_pa :: nat
  required_quorum :: nat
  model_votes :: "agent_vote list"
  avg_confidence_pa :: real

definition verifyClaimInternal ::
  "string list \<Rightarrow> (string \<Rightarrow> model_call) \<Rightarrow> agent_result option" where
  "verifyClaimInternal ms call =
     (let votes = collect_votes ms call;
          validVotes = filter (\<lambda>v. verdict_av v \<noteq> ''ERROR'') votes;
          quorumSize = nat \<lceil>real (2 * length ms) / 3\<rceil>;
          hasQuorum = (length validVotes \<ge> quorumSize);
          totalConfidence = foldl (\<lambda>sum v. sum + confidence_av v) 0 validVotes
      in do {
        avgConfidence \<leftarrow>
          (if length validVotes > 0 then js_div totalConfidence (real (length validVotes))
           else Some 0);
        let confidences = map confidence_av validVotes;
        let mean = avgConfidence;
        variance \<leftarrow>
          (if length confidences > 0
           then js_div (foldl (\<lambda>sum c. sum + (c - mean)\<^sup>2) 0 confidences)
                       (real (length confidences))
           else Some 0);
        let stdDev = sqrt variance;
        let constitutionalHalt = (stdDev > 0.25);
        let counts = foldl (\<lambda>counts v. count_verdict counts (verdict_av v)) [] validVotes;
        let majorityVerdict =
              (case sort_entries (entries counts) of
                 [] \<Rightarrow> ''INSUFFICIENT_EVIDENCE''
               | e # _ \<Rightarrow> if fst e = [] then ''INSUFFICIENT_EVIDENCE'' else fst e);
        let finalVerdict = (if constitutionalHalt then ''CONSTITUTIONAL_HALT'' else majorityVerdict);
        Some \<lparr> verdict_pa = finalVerdict,
               confidence_pa = toFixed4 avgConfidence,
               std_dev = toFixed4 stdDev,
               constitutional_halt_pa = constitutionalHalt,
               quorum = hasQuorum,
               votes_pa = length validVotes,
               required_quorum = quorumSize,
               model_votes = votes,
               avg_confidence_pa = avgConfidence \<rparr>
      })"

section \<open>The HITL approval workflow (HITLApprovalWorkflow.run)\<close>

text \<open>The screening object: the parsed answer of the model, or the default.\<close>

record screening =
  completeness_score :: real
  risk_flags :: "string list"
  recommended_action :: string
  confidence_s :: real

definition default_screening :: screening where
  "default_screening =
     \<lparr> completeness_score = 0.5, risk_flags = [''ai_parse_failure''],
       recommended_action = ''review'', confidence_s = 0.3 \<rparr>"

record hitl_claim =
  id_c :: "string option"
  type_c :: "string option"
  condition_c :: json
  disability_rating :: "nat option"

record risk_assessment =
  requires_human_review :: bool
  risk_level :: string
  halt_triggered_ra :: bool

text \<open>
  The risk assessment step; \<open>HALT_THRESHOLD\<close> is the parsed environment variable, if set.
\<close>

definition riskAssessment ::
  "real option \<Rightarrow> screening \<Rightarrow> string \<Rightarrow> hitl_claim \<Rightarrow> risk_assessment" where
  "riskAssessment HALT_THRESHOLD s priority claim =
     (let haltThreshold = (case HALT_THRESHOLD of None \<Rightarrow> 0.67 | Some t \<Rightarrow> t);
          requiresHumanReview =
            (recommended_action s = ''review'' \<or>
             recommended_action s = ''reject'' \<or>
             confidence_s s < haltThreshold \<or>
             completeness_score s < 0.6 \<or>
             length (risk_flags s) > 2 \<or>
             priority = ''high'' \<or>
             type_c claim = Some ''tdiu'' \<or>
             (case disability_rating claim of None \<Rightarrow> False | Some r \<Rightarrow> r \<ge> 70))
      in \<lparr> requires_human_review = requiresHumanReview,
            risk_level =
              (if confidence_s s < 0.4 then ''critical''
               else if confidence_s s < haltThreshold then ''high''
               else if length (risk_flags s) > 0 then ''medium'' else ''low''),
            halt_triggered_ra = (confidence_s s < haltThreshold) \<rparr>)"

text \<open>
  The payload of the review event: the approve and reject endpoints send \<open>decision\<close>,
  \<open>reviewer\<close> and \<open>reason\<close>. \<open>step.waitForEvent\<close> returns the event, or the wait
  runs into its timeout of seven days, which the workflow does not catch.
\<close>

record decision =
  decision_d :: "string option"
  reviewer :: "string option"
  reason :: "string option"
  auto :: bool

datatype wait_outcome = Event "decision option" | Timed_out

datatype hitl_failure = Wait_timeout

record hitl_result =
  claimId_h :: string
  status_h :: string
  decision_h :: "string option"
  reviewer_h :: string
  auto_approved :: bool
  risk_level_h :: string
  halt_triggered_h :: bool
  screening_confidence :: real
  proof_h :: "(string \<times> string) option"

text \<open>\<open>x || 'auto-approve'\<close>\<close>

definition or_auto_approve :: "string option \<Rightarrow> string" where
  "or_auto_approve x =
     (case x of None \<Rightarrow> ''auto-approve'' | Some s \<Rightarrow> if s = [] then ''auto-approve'' else s)"

text \<open>The proof object of the sign-proof step, before the hash is added.\<close>

definition proofData ::
  "string \<Rightarrow> string \<Rightarrow> hitl_claim \<Rightarrow> screening \<Rightarrow> risk_assessment \<Rightarrow> decision \<Rightarrow> string
     \<Rightarrow> real \<Rightarrow> json" where
  "proofData proof_id claimId claim s risk d approved_at processing_time_ms =
     JObj [
       (''id'', JStr proof_id),
       (''claim_id'', JStr claimId),
       (''type'', JStr ''vetproof_hitl_approved''),
       (''claim_type'',
          JStr (case type_c claim of None \<Rightarrow> ''disability_compensation''
                | Some t \<Rightarrow> if t = [] then ''disability_compensation'' else t)),
       (''condition'', condition_c claim),
       (''screening_confidence'', JNum (confidence_s s)),
       (''risk_level'', JStr (risk_level risk)),
       (''reviewer'', JStr (or_auto_approve (reviewer d))),
       (''auto_approved'', JBool (auto d)),
       (''approved_at'', JStr approved_at),
       (''constitutional_halt'', JBool (halt_triggered_ra risk)),
       (''processing_time_ms'', JNum processing_time_ms)]"

text \<open>
  \<open>HITLApprovalWorkflow.run\<close> from the risk assessment on. \<open>uuid\<close> and \<open>proof_id\<close> are
  the two values of \<open>crypto.randomUUID()\<close>, \<open>outcome\<close> is what the wait for the review
  event gives (it is only consulted when a human review is required), and \<open>storage\<close> is the
  R2 bucket (\<open>None\<close>: the \<open>put\<close> fails, which the workflow ignores). The audit rows and
  the KV entries (the pending review, the copy of the proof) are left out; the KV copy of the
  proof is written in the same step as the R2 object.
\<close>

definition HITLApprovalWorkflow_run ::
  "(string \<Rightarrow> string) \<Rightarrow> (json \<Rightarrow> string) \<Rightarrow> real option \<Rightarrow> string \<Rightarrow> string \<Rightarrow> string \<Rightarrow> real
     \<Rightarrow> hitl_claim \<Rightarrow> string \<Rightarrow> screening option \<Rightarrow> wait_outcome \<Rightarrow> bucket option
     \<Rightarrow> hitl_failure + (hitl_result \<times> bucket option)" where
  "HITLApprovalWorkflow_run sha256 stringify HALT_THRESHOLD uuid proof_id approved_at
       processing_time_ms claim priority parsed outcome storage =
     (let claimId = (case id_c claim of None \<Rightarrow> uuid | Some i \<Rightarrow> if i = [] then uuid else i);
          s = (case parsed of None \<Rightarrow> default_screening | Some p \<Rightarrow> p);
          risk = riskAssessment HALT_THRESHOLD s priority claim;
          approvalResult =
            (if requires_human_review risk then outcome
             else Event (Some \<lparr> decision_d = Some ''approved'', reviewer = Some ''auto-approve'',
                                 reason = Some ''Low risk'', auto = True \<rparr>))
      in case approvalResult of
           Timed_out \<Rightarrow> Inl Wait_timeout
         | Event payload \<Rightarrow>
             let d = (case payload of
                        None \<Rightarrow> \<lparr> decision_d = None, reviewer = None, reason = None, auto = False \<rparr>
                      | Some p \<Rightarrow> p);
                 isApproved = (decision_d d = Some ''approved'');
                 data0 = proofData proof_id claimId claim s risk d approved_at processing_time_ms;
                 proof_hash = sha256 (stringify data0);
                 data = with_proof_hash data0 proof_hash
             in Inr (\<lparr> claimId_h = claimId,
                       status_h = (if isApproved then ''approved'' else ''rejected''),
                       decision_h = decision_d d,
                       reviewer_h = or_auto_approve (reviewer d),
                       auto_approved = auto d,
                       risk_level_h = risk_level risk,
                       halt_triggered_h = halt_triggered_ra risk,
                       screening_confidence = confidence_s s,
                       proof_h = (if isApproved then Some (proof_id, proof_hash) else None) \<rparr>,
                     (if isApproved
                      then (case storage of
                              None \<Rightarrow> None
                            | Some b \<Rightarrow>
                                Some (b(''hitl/'' @ claimId @ ''/'' @ proof_id @ ''.json'' \<mapsto> data)))
                      else storage)))"

section \<open>The collective orchestrator (CollectiveOrchestrationWorkflow.run)\<close>













section \<open>Comparing snapshots, and the standard deviation\<close>

text \<open>
  A snapshot with the clock reading of another moment: the only field of a snapshot that is
  not computed from the votes.
\<close>

definition restamp :: "string \<Rightarrow> consensus \<Rightarrow> consensus" where
  "restamp now c =
     (case c of Pending x \<Rightarrow> Pending x | Computed s \<Rightarrow> Computed (s\<lparr> timestamp_cs := now \<rparr>))"

text \<open>
  The population standard deviation of a list of numbers, each counted once: the square root
  of the mean of the squared distances from the arithmetic mean. This is the definition of the
  textbook, against which the computations of the workers are compared.
\<close>

definition arithmetic_mean :: "real list \<Rightarrow> real" where
  "arithmetic_mean xs = sum_list xs / real (length xs)"

definition population_std_dev :: "real list \<Rightarrow> real" where
  "population_std_dev xs =
     sqrt (sum_list (map (\<lambda>x. (x - arithmetic_mean xs)\<^sup>2) xs) / real (length xs))"

section \<open>Example inputs\<close>


text \<open>Two votes in full agreement, and three votes of which two agree.\<close>

definition votes_pair :: "vote_row list" where
  "votes_pair =
     [\<lparr> model_id = ''m1'', verdict = ''VERIFIED'', confidence = 0.5, coherence_score = 0.5,
         reasoning = [], timestamp = ''t0'' \<rparr>,
      \<lparr> model_id = ''m2'', verdict = ''VERIFIED'', confidence = 0.5, coherence_score = 0.5,
         reasoning = [], timestamp = ''t0'' \<rparr>]"



text \<open>
  A namespace in which no durable object has a vote yet, and a worker with that namespace
  and empty stores.
\<close>

definition no_sessions :: "string \<Rightarrow> do_state" where
  "no_sessions c = \<lparr> votes_table = [], state_consensus = None \<rparr>"

definition no_archives :: "string \<Rightarrow> archive option" where
  "no_archives k = None"

definition no_cache :: "string \<Rightarrow> consensus option" where
  "no_cache k = None"

definition fresh_env :: env where
  "fresh_env =
     \<lparr> SHIELD_CONSENSUS = no_sessions, PROOF_STORAGE = Bound no_archives,
       VERIFICATION_CACHE = Bound no_cache, AUDIT_DB = Bound [] \<rparr>"

text \<open>A request for the claim \<open>c1\<close>.\<close>

definition post_vote :: "string \<Rightarrow> vote_in \<Rightarrow> vote_request" where
  "post_vote m v =
     \<lparr> http_method = ''POST'', claim_id_rq = Some ''c1'', model_id_rq = Some m,
       vote_rq = Some v \<rparr>"











text \<open>
  Two models that disagree with equal confidence, and the durable object after the vote of
  the first, and after the vote of the second.
\<close>

definition vote_for :: "string \<Rightarrow> vote_in" where
  "vote_for v =
     \<lparr> verdict_in = Some v, confidence_in = Some 0.5, coherence_score_in = Some 0.5,
       reasoning_in = None \<rparr>"

definition session_one :: do_state where
  "session_one = snd (submitVote ''s1'' ''t1'' ''m1'' (vote_for ''VERIFIED'') (no_sessions ''c1''))"

definition session_two :: do_state where
  "session_two = snd (submitVote ''s2'' ''t2'' ''m2'' (vote_for ''UNVERIFIED'') session_one)"

text \<open>A vote whose verdict is the string \<open>__proto__\<close>.\<close>

definition proto_vote :: vote_in where
  "proto_vote = vote_for ''__proto__''"

text \<open>
  Model answers for the workflow: both models sure to one half; one sure and one not; and
  the two a quarter away from one half.
\<close>

definition answer :: "string \<Rightarrow> real \<Rightarrow> settled" where
  "answer v c =
     Fulfilled (Some \<lparr> verdict_p = Some v, confidence_p = Some c, cfr_sections_p = JArr [],
                       nexus_strength_p = JStr ''direct'' \<rparr>)"

definition respond_half :: "string \<Rightarrow> settled" where
  "respond_half m = answer ''VERIFIED'' 0.5"

definition respond_split :: "string \<Rightarrow> settled" where
  "respond_split m =
     (if m = ''@cf/meta/llama-3.1-8b-instruct'' then answer ''VERIFIED'' 1
      else answer ''UNVERIFIED'' 0)"


text \<open>Stand-ins for the two platform functions, for the closed examples only.\<close>

definition toy_stringify :: "json \<Rightarrow> string" where
  "toy_stringify j = (case js_get j ''claim_id'' of JStr c \<Rightarrow> c | _ \<Rightarrow> [])"

definition toy_sha256 :: "string \<Rightarrow> string" where
  "toy_sha256 s = ''sha:'' @ s"

definition pipeline_example :: "string \<Rightarrow> (string \<Rightarrow> settled) \<Rightarrow> pipeline_input" where
  "pipeline_example c rsp =
     \<lparr> claim_id = c,
       sanitized = JObj [(''has_pii'', JBool False), (''pii_types'', JArr []),
                         (''original_hash'', JStr ''00'')],
       claim_evidence_similarity = 0.75,
       similar_claims_found = 0,
       respond = rsp,
       timestamp_in = ''t1'',
       duration_ms = 5 \<rparr>"

definition empty_bucket :: bucket where
  "empty_bucket k = None"

text \<open>Two runs of the pipeline, one after the other on the same bucket.\<close>

definition first_run :: "(json \<times> bucket option) option" where
  "first_run =
     VetProofPipeline_run toy_sha256 toy_stringify (pipeline_example ''c1'' respond_half)
       (Some empty_bucket)"

definition second_run :: "(json \<times> bucket option) option" where
  "second_run =
     VetProofPipeline_run toy_sha256 toy_stringify (pipeline_example ''c2'' respond_half)
       (snd (the first_run))"

definition halting_run :: "(json \<times> bucket option) option" where
  "halting_run =
     VetProofPipeline_run toy_sha256 toy_stringify (pipeline_example ''c3'' respond_split)
       (Some empty_bucket)"



text \<open>A claim for the HITL workflow, and a reviewer's rejection.\<close>

definition claim_example :: hitl_claim where
  "claim_example =
     \<lparr> id_c = Some ''c1'', type_c = None, condition_c = JStr ''tinnitus'',
       disability_rating = None \<rparr>"

definition rejection :: decision where
  "rejection =
     \<lparr> decision_d = Some ''rejected'', reviewer = Some ''reviewer-1'',
       reason = Some ''Manual rejection'', auto = False \<rparr>"



section \<open>Auxiliary facts\<close>


lemma sqrt_quarter: "sqrt (1 / 4) = 1 / 2"
  by (rule real_sqrt_unique) (simp_all add: power2_eq_square)


lemma map_of_obj_set: "map_of (obj_set kvs k v) k' = (if k' = k then Some v else map_of kvs k')"
  by (induction kvs) auto

lemma obj_set_nonempty: "obj_set kvs k v \<noteq> []"
  by (cases kvs) (auto split: if_splits)


lemma foldl_plus_sum_list: "foldl (\<lambda>a b. a + b) a xs = a + sum_list xs"
  for a :: real
  by (induction xs arbitrary: a) simp_all

lemma foldl_squares_sum_list:
  "foldl (\<lambda>sum c. sum + (c - m)\<^sup>2) a xs = a + sum_list (map (\<lambda>x. (x - m)\<^sup>2) xs)"
  for a :: real
  by (induction xs arbitrary: a) simp_all

subsection \<open>Objects and their entries\<close>

lemma set_entries: "set (entries obj) = set obj"
  by (auto simp: entries_def)

lemma entries_empty: "(entries obj = []) = (obj = [])"
  using set_entries [of obj] by (metis set_empty)

lemma set_insert_entry: "set (insert_entry x es) = insert x (set es)"
  by (induction es) auto

lemma set_sort_entries: "set (sort_entries es) = set es"
  by (induction es) (simp_all add: sort_entries_def set_insert_entry)

lemma sort_entries_empty: "(sort_entries es = []) = (es = [])"
  using set_sort_entries [of es] by (metis set_empty)

lemma sorted_head_in_counts:
  "sort_entries (entries obj) = mv # rest \<Longrightarrow> mv \<in> set obj"
  by (metis list.set_intros(1) set_entries set_sort_entries)

text \<open>The counts after a loop that starts from a non-empty object are not empty.\<close>

lemma count_verdict_nonempty: "counts \<noteq> [] \<Longrightarrow> count_verdict counts k \<noteq> []"
  by (simp add: count_verdict_def obj_set_nonempty)

lemma foldl_count_verdict_nonempty:
  "counts \<noteq> [] \<Longrightarrow> foldl (\<lambda>counts v. count_verdict counts (verdict v)) counts vs \<noteq> []"
  by (induction vs arbitrary: counts) (simp_all add: count_verdict_nonempty)

lemma verdictCounts_empty:
  "(verdictCounts vs = []) = (\<forall>v \<in> set vs. verdict v = ''__proto__'')"
proof (induction vs)
  case Nil
  show ?case by (simp add: verdictCounts_def)
next
  case (Cons a vs)
  show ?case
  proof (cases "verdict a = ''__proto__''")
    case True
    then have "verdictCounts (a # vs) = verdictCounts vs"
      by (simp add: verdictCounts_def count_verdict_def)
    with True Cons show ?thesis by simp
  next
    case False
    then have "count_verdict [] (verdict a) \<noteq> []"
      by (simp add: count_verdict_def)
    then have "verdictCounts (a # vs) \<noteq> []"
      unfolding verdictCounts_def by (simp add: foldl_count_verdict_nonempty)
    with False show ?thesis by auto
  qed
qed

lemma verdictCounts_map:
  "verdictCounts vs = foldl count_verdict [] (map verdict vs)"
  by (simp add: verdictCounts_def foldl_map)

subsection \<open>calculateConsensus\<close>

lemma calculateConsensus_no_votes: "calculateConsensus now [] = Inr (Pending ''No votes yet'')"
  by (simp add: calculateConsensus_def)

lemma calculateConsensus_throws:
  "vs \<noteq> [] \<Longrightarrow> verdictCounts vs = [] \<Longrightarrow> calculateConsensus now vs = Inl TypeError"
  by (simp add: calculateConsensus_def entries_def sort_entries_def)

text \<open>What the snapshot of a non-empty vote list holds, field by field.\<close>

lemma calculateConsensus_eq:
  assumes "vs \<noteq> []" and "sort_entries (entries (verdictCounts vs)) = mv # rest"
  shows "calculateConsensus now vs = Inr (Computed \<lparr>
       status = (if at_least (case snd mv of Counted k \<Rightarrow> Num (real k / real (length vs))
                               | Text \<Rightarrow> NaN)
                      (real (2 * length vs + 2) / real (3 * length vs))
                 then ''CONSENSUS'' else ''DISAGREEMENT''),
       verdict_cs = fst mv,
       agreement_pct = (case snd mv of Counted k \<Rightarrow> Num (real k / real (length vs))
                        | Text \<Rightarrow> NaN),
       bft_threshold = real (2 * length vs + 2) / real (3 * length vs),
       avg_confidence = foldl (\<lambda>s v. s + confidence v) 0 vs / real (length vs),
       avg_coherence = foldl (\<lambda>s v. s + coherence_score v) 0 vs / real (length vs),
       confidence_std_dev =
         sqrt (foldl (\<lambda>sum v. sum + (confidence v
                 - foldl (\<lambda>s v. s + confidence v) 0 vs / real (length vs))\<^sup>2) 0 vs
               / real (length vs)),
       halt_triggered =
         (sqrt (foldl (\<lambda>sum v. sum + (confidence v
                 - foldl (\<lambda>s v. s + confidence v) 0 vs / real (length vs))\<^sup>2) 0 vs
               / real (length vs)) > 0.25),
       total_votes = length vs,
       fault_tolerance = (length vs - 1) div 3,
       verdict_distribution = verdictCounts vs,
       timestamp_cs = now \<rparr>)"
  using assms
  by (cases "snd mv") (simp_all add: calculateConsensus_def share_def js_div_def Let_def)

text \<open>
  No divisor of \<open>calculateConsensus\<close> is zero, and it returns a snapshot for every list
  of votes in which some verdict is not \<open>__proto__\<close>.
\<close>

lemma calculateConsensus_returns:
  assumes "\<exists>v \<in> set vs. verdict v \<noteq> ''__proto__''"
  shows "\<exists>s. calculateConsensus now vs = Inr (Computed s)"
proof -
  from assms have ne: "vs \<noteq> []" by auto
  from assms have "verdictCounts vs \<noteq> []" by (simp add: verdictCounts_empty)
  then obtain mv rest where "sort_entries (entries (verdictCounts vs)) = mv # rest"
    by (metis entries_empty sort_entries_empty list.exhaust)
  from calculateConsensus_eq [OF ne this] show ?thesis by blast
qed

lemma calculateConsensus_never_divides_by_zero:
  "calculateConsensus now vs \<noteq> Inl Division_by_zero"
proof (cases "vs = []")
  case True
  then show ?thesis by (simp add: calculateConsensus_def)
next
  case False
  show ?thesis
  proof (cases "sort_entries (entries (verdictCounts vs))")
    case Nil
    with False show ?thesis by (simp add: calculateConsensus_def)
  next
    case (Cons mv rest)
    from calculateConsensus_eq [OF False Cons] show ?thesis by simp
  qed
qed

lemma Computed_nonempty: "calculateConsensus now vs = Inr (Computed s) \<Longrightarrow> vs \<noteq> []"
  by (auto simp: calculateConsensus_def)

lemma Computed_head:
  assumes "calculateConsensus now vs = Inr (Computed s)"
  shows "\<exists>mv rest. sort_entries (entries (verdictCounts vs)) = mv # rest"
proof (cases "sort_entries (entries (verdictCounts vs))")
  case Nil
  with assms Computed_nonempty [OF assms] show ?thesis
    by (simp add: calculateConsensus_def)
next
  case (Cons mv rest)
  then show ?thesis by blast
qed



lemma entries_single: "entries [e] = [e]"
  by (simp add: entries_def)

lemma sort_entries_single: "sort_entries [e] = [e]"
  by (simp add: sort_entries_def)

lemma calculateConsensus_small:
  assumes "length vs < 3" and "\<forall>x \<in> set vs. \<not> inherited (verdict x)"
    and "calculateConsensus now vs = Inr (Computed s)"
  shows "(status s = ''CONSENSUS'') = (\<exists>a b. vs = [a, b] \<and> verdict a = verdict b)"
proof -
  from assms(3) have ne: "vs \<noteq> []" by (rule Computed_nonempty)
  with assms(1) consider a where "vs = [a]" | a b where "vs = [a, b]"
    by (cases vs; cases "tl vs"; cases "tl (tl vs)") auto
  then show ?thesis
  proof cases
    case 1
    with assms(2) have "sort_entries (entries (verdictCounts vs)) = [(verdict a, Counted 1)]"
      by (simp add: verdictCounts_def count_verdict_def inherited_def entries_single
            sort_entries_single)
    from calculateConsensus_eq [OF ne this, of now] assms(3) 1 show ?thesis
      by (auto simp: at_least_def)
  next
    case 2
    show ?thesis
    proof (cases "verdict a = verdict b")
      case True
      with 2 assms(2) have "sort_entries (entries (verdictCounts vs)) = [(verdict a, Counted 2)]"
        by (simp add: verdictCounts_def count_verdict_def inherited_def entries_single
              sort_entries_single)
      from calculateConsensus_eq [OF ne this, of now] assms(3) 2 True show ?thesis
        by (auto simp: at_least_def)
    next
      case False
      with 2 assms(2) have c: "verdictCounts vs = [(verdict a, Counted 1), (verdict b, Counted 1)]"
        by (simp add: verdictCounts_def count_verdict_def inherited_def)
      from Computed_head [OF assms(3)] obtain mv rest
        where h: "sort_entries (entries (verdictCounts vs)) = mv # rest" by blast
      from sorted_head_in_counts [OF h] c have "snd mv = Counted 1" by auto
      with calculateConsensus_eq [OF ne h, of now] assms(3) 2 False show ?thesis
        by (auto simp: at_least_def)
    qed
  qed
qed



text \<open>The snapshot reads the verdict, the confidence and the coherence of a row, and the clock.\<close>

lemma insort_key_map_same:
  assumes "\<And>r. k (f r) = k r"
  shows "insort_key k (f x) (map f xs) = map f (insort_key k x xs)"
  by (induction xs) (simp_all add: assms)

lemma sort_key_map_same:
  assumes "\<And>r. k (f r) = k r"
  shows "sort_key k (map f xs) = map f (sort_key k xs)"
  by (induction xs) (simp_all add: insort_key_map_same assms)

lemma select_votes_map:
  fixes f :: "vote_row \<Rightarrow> vote_row"
  assumes "\<And>r. confidence (f r) = confidence r"
  shows "select_votes (map f rows) = map f (select_votes rows)"
  unfolding select_votes_def by (rule sort_key_map_same) (simp add: assms)

lemma calculateConsensus_map:
  fixes f :: "vote_row \<Rightarrow> vote_row"
  assumes "\<And>r. confidence (f r) = confidence r" "\<And>r. verdict (f r) = verdict r"
    "\<And>r. coherence_score (f r) = coherence_score r"
  shows "calculateConsensus now (map f vs) = calculateConsensus now vs"
proof (cases "vs = []")
  case True
  then show ?thesis by simp
next
  case False
  have c: "verdictCounts (map f vs) = verdictCounts vs"
    by (simp add: verdictCounts_map comp_def assms)
  show ?thesis
  proof (cases "sort_entries (entries (verdictCounts vs))")
    case Nil
    then have "verdictCounts vs = []" by (simp add: sort_entries_empty entries_empty)
    with False c show ?thesis by (simp add: calculateConsensus_throws)
  next
    case (Cons mv rest)
    with c have "sort_entries (entries (verdictCounts (map f vs))) = mv # rest" by simp
    from calculateConsensus_eq [OF _ this, of now] calculateConsensus_eq [OF False Cons, of now]
      False
    show ?thesis by (simp add: foldl_map assms c split: tally.split)
  qed
qed

lemma calculateConsensus_clock:
  "calculateConsensus now2 vs = map_sum id (restamp now2) (calculateConsensus now1 vs)"
proof (cases "vs = []")
  case True
  then show ?thesis by (simp add: calculateConsensus_def restamp_def)
next
  case False
  show ?thesis
  proof (cases "sort_entries (entries (verdictCounts vs))")
    case Nil
    with False show ?thesis by (simp add: calculateConsensus_def)
  next
    case (Cons mv rest)
    from calculateConsensus_eq [OF False Cons, of now1]
      calculateConsensus_eq [OF False Cons, of now2]
    show ?thesis by (simp add: restamp_def)
  qed
qed

subsection \<open>submitVote\<close>

lemma length_select_votes: "length (select_votes rows) = length rows"
  by (simp add: select_votes_def)

lemma replace_twice:
  "insert_or_replace (r\<lparr>timestamp := t2\<rparr>) (insert_or_replace r rows) =
     map (\<lambda>x. if model_id x = model_id r then x\<lparr>timestamp := t2\<rparr> else x)
       (insert_or_replace r rows)"
proof -
  have "filter (\<lambda>x. model_id x \<noteq> model_id r) rows =
        map (\<lambda>x. if model_id x = model_id r then x\<lparr>timestamp := t2\<rparr> else x)
          (filter (\<lambda>x. model_id x \<noteq> model_id r) rows)"
    by (induction rows) auto
  then show ?thesis by (simp add: insert_or_replace_def)
qed


lemma submitVote_result:
  assumes "verdict_in vote = Some v" "confidence_in vote = Some c"
    "coherence_score_in vote = Some k"
    and "calculateConsensus now (select_votes (insert_or_replace
           (stored_row sql_now m v c k (reasoning_in vote)) (votes_table st))) = Inr cons"
  shows "submitVote sql_now now m vote st =
      (Inr \<lparr> vote_accepted = True,
             total_votes_sr = length (select_votes (insert_or_replace
                 (stored_row sql_now m v c k (reasoning_in vote)) (votes_table st))),
             consensus_sr = cons,
             votes_sr = select_votes (insert_or_replace
                 (stored_row sql_now m v c k (reasoning_in vote)) (votes_table st)) \<rparr>,
           \<lparr> votes_table = insert_or_replace
                 (stored_row sql_now m v c k (reasoning_in vote)) (votes_table st),
             state_consensus = Some cons \<rparr>)"
  using assms by (simp add: submitVote_def Let_def)


lemma submitVote_Inr:
  assumes "submitVote sql_now now m vote st = (Inr r, st')"
  shows "\<exists>v c k. verdict_in vote = Some v \<and> confidence_in vote = Some c \<and>
           coherence_score_in vote = Some k \<and>
           calculateConsensus now (select_votes (insert_or_replace
             (stored_row sql_now m v c k (reasoning_in vote)) (votes_table st)))
             = Inr (consensus_sr r) \<and>
           votes_sr r = select_votes (insert_or_replace
             (stored_row sql_now m v c k (reasoning_in vote)) (votes_table st)) \<and>
           total_votes_sr r = length (votes_sr r) \<and> vote_accepted r \<and>
           st' = \<lparr> votes_table = insert_or_replace
                     (stored_row sql_now m v c k (reasoning_in vote)) (votes_table st),
                   state_consensus = Some (consensus_sr r) \<rparr>"
  using assms by (auto simp: submitVote_def Let_def split: option.splits sum.splits)

subsection \<open>The workflow\<close>

lemma js_get_with_proof_hash:
  "js_get (with_proof_hash (JObj kvs) h) k =
     (if k = ''proof_hash'' then JStr h else js_get (JObj kvs) k)"
  by (simp add: with_proof_hash_def js_get_def map_of_obj_set)

lemma sign_verdict:
  "js_get (fst (sign sha256 stringify inp ver det storage)) ''verdict'' =
     JStr (if truthy (halt_required det) then ''HALTED_FOR_REVIEW'' else consensus_of ver)"
  by (simp add: sign_def Let_def proofBundle_def js_get_with_proof_hash) (simp add: js_get_def)

lemma sign_hashes:
  "js_get (fst (sign sha256 stringify inp ver det storage)) ''previous_hash'' = JUndefined"
  "js_get (fst (sign sha256 stringify inp ver det storage)) ''proof_hash'' =
     JStr (sha256 (stringify (proofBundle inp ver det)))"
  by (simp_all add: sign_def Let_def proofBundle_def js_get_with_proof_hash)
     (simp add: js_get_def)

lemma sign_storage:
  "snd (sign sha256 stringify inp ver det (Some b)) =
     Some (b(''proofs/'' @ claim_id inp @ ''/'' @ sha256 (stringify (proofBundle inp ver det))
               @ ''.json'' \<mapsto> fst (sign sha256 stringify inp ver det (Some b))))"
  by (simp add: sign_def Let_def)

lemma halt_required_of_flag:
  "constitutional_halt v \<Longrightarrow> truthy (halt_required (detect (Aggregated v) sim))"
  by (simp add: detect_def Let_def truthy_def constitutional_halt_of_def)

text \<open>The two models of the workflow give at most two votes, of weight 1 and 1.2.\<close>

lemma successfulVotes_cases:
  "successfulVotes rsp = [] \<or>
   (\<exists>p. successfulVotes rsp =
          [\<lparr> model_mv = ''llama-3.1-8b'', weight_mv = 1.0, parsed_mv = p \<rparr>]) \<or>
   (\<exists>p. successfulVotes rsp =
          [\<lparr> model_mv = ''qwen-14b'', weight_mv = 1.2, parsed_mv = p \<rparr>]) \<or>
   (\<exists>p q. successfulVotes rsp =
          [\<lparr> model_mv = ''llama-3.1-8b'', weight_mv = 1.0, parsed_mv = p \<rparr>,
           \<lparr> model_mv = ''qwen-14b'', weight_mv = 1.2, parsed_mv = q \<rparr>])"
  by (auto simp: successfulVotes_def models_def
        split: settled.splits option.splits)

lemma successfulVotes_weight:
  "successfulVotes rsp \<noteq> [] \<Longrightarrow> foldl (\<lambda>s v. s + weight_mv v) 0 (successfulVotes rsp) > 0"
  using successfulVotes_cases [of rsp] by auto

text \<open>What the aggregate of a non-empty vote list with a total weight other than 0 holds.\<close>

lemma aggregate_eq:
  assumes "vs \<noteq> []" and "foldl (\<lambda>s v. s + weight_mv v) 0 vs \<noteq> 0"
  shows "aggregate vs failed = Some (Aggregated \<lparr>
            consensus =
              (if snd (majority (entries (weightedCounts vs)))
                    / foldl (\<lambda>s v. s + weight_mv v) 0 vs \<ge> 2 / 3
               then fst (majority (entries (weightedCounts vs))) else ''NO_CONSENSUS''),
            consensus_reached =
              (snd (majority (entries (weightedCounts vs)))
                 / foldl (\<lambda>s v. s + weight_mv v) 0 vs \<ge> 2 / 3),
            agreement_ratio =
              snd (majority (entries (weightedCounts vs))) / foldl (\<lambda>s v. s + weight_mv v) 0 vs,
            bft_threshold_wf = 2 / 3,
            weighted_confidence =
              (if foldl (\<lambda>s v. s + weight_mv v) 0 vs > 0
               then foldl (\<lambda>s v. s + confidence_or_0 v * weight_mv v) 0 vs
                      / foldl (\<lambda>s v. s + weight_mv v) 0 vs
               else 0),
            confidence_std_dev_wf = population_std_dev (map confidence_or_0 vs),
            constitutional_halt = (population_std_dev (map confidence_or_0 vs) > 0.25),
            votes_wf = vs,
            failed_models = failed \<rparr>)"
  using assms
  by (simp add: aggregate_def Let_def js_div_def population_std_dev_def arithmetic_mean_def
        foldl_plus_sum_list foldl_squares_sum_list split: prod.splits)

lemma aggregate_Aggregated:
  assumes "aggregate vs failed = Some (Aggregated v)"
  shows "vs \<noteq> []" and "foldl (\<lambda>s v. s + weight_mv v) 0 vs \<noteq> 0"
  using assms
  by (auto simp: aggregate_def Let_def js_div_def split: if_splits prod.splits bind_splits)

lemma aggregate_fields:
  assumes "aggregate vs failed = Some (Aggregated v)"
  shows "confidence_std_dev_wf v = population_std_dev (map confidence_or_0 vs)"
    and "constitutional_halt v = (population_std_dev (map confidence_or_0 vs) > 0.25)"
    and "votes_wf v = vs"
    and "agreement_ratio v =
           snd (majority (entries (weightedCounts vs))) / foldl (\<lambda>s v. s + weight_mv v) 0 vs"
    and "consensus_reached v = (agreement_ratio v \<ge> 2 / 3)"
  using aggregate_eq [OF aggregate_Aggregated [OF assms], of failed] assms by auto

lemma verify_no_votes:
  "successfulVotes rsp = [] \<Longrightarrow> verify rsp = Some (NO_QUORUM (failedVotes rsp))"
  by (simp add: verify_def aggregate_def)

lemma verify_some_votes:
  assumes "successfulVotes rsp \<noteq> []"
  shows "\<exists>v. verify rsp = Some (Aggregated v)"
proof -
  from successfulVotes_weight [OF assms]
  have "foldl (\<lambda>s v. s + weight_mv v) 0 (successfulVotes rsp) \<noteq> 0" by simp
  from aggregate_eq [OF assms this] show ?thesis unfolding verify_def by blast
qed

text \<open>The verify step returns for all answers of the models.\<close>

lemma verify_total: "\<exists>r. verify rsp = Some r"
  using verify_no_votes [of rsp] verify_some_votes [of rsp] by blast

lemma verify_length:
  assumes "verify rsp = Some (Aggregated v)"
  shows "length (votes_wf v) < 3"
  using successfulVotes_cases [of rsp] aggregate_fields(3) [OF assms [unfolded verify_def]]
  by auto

text \<open>The greatest weight among at most two counted verdicts.\<close>

lemma entries_pair: "entries [a, b] = [a, b] \<or> entries [a, b] = [b, a]"
  by (auto simp: entries_def)

lemma majority_none: "majority [] = (''NO_CONSENSUS'', 0)"
  by (simp add: majority_def)

lemma majority_one:
  "majority [(k, t)] =
     (case t of Counted w \<Rightarrow> if w > 0 then (k, w) else (''NO_CONSENSUS'', 0)
      | Text \<Rightarrow> (''NO_CONSENSUS'', 0))"
  by (simp add: majority_def split: tally.split)

lemma weightedCounts_one:
  "weightedCounts [\<lparr> model_mv = m, weight_mv = w, parsed_mv = p \<rparr>] =
     (let k = verdict_or_unknown \<lparr> model_mv = m, weight_mv = w, parsed_mv = p \<rparr>
      in if k = ''__proto__'' then []
         else [(k, if inherited_function k then Text else Counted w)])"
  by (simp add: weightedCounts_def add_weight_def Let_def)

lemma ratio_one:
  assumes "w > 0"
  shows "snd (majority (entries (weightedCounts
            [\<lparr> model_mv = m, weight_mv = w, parsed_mv = p \<rparr>]))) =
     (if inherited (verdict_or_unknown \<lparr> model_mv = m, weight_mv = w, parsed_mv = p \<rparr>)
      then 0 else w)"
  using assms
  by (simp add: weightedCounts_one Let_def entries_def majority_none majority_one inherited_def
        entries_single)

lemma ratio_two:
  assumes "w1 > 0" "w2 > w1"
  shows "snd (majority (entries (weightedCounts
            [\<lparr> model_mv = m1, weight_mv = w1, parsed_mv = p \<rparr>,
             \<lparr> model_mv = m2, weight_mv = w2, parsed_mv = q \<rparr>]))) \<in> {0, w1, w2, w1 + w2}"
    and "\<not> inherited (verdict_or_unknown \<lparr> model_mv = m1, weight_mv = w1, parsed_mv = p \<rparr>)
         \<Longrightarrow> \<not> inherited (verdict_or_unknown \<lparr> model_mv = m2, weight_mv = w2, parsed_mv = q \<rparr>)
         \<Longrightarrow> snd (majority (entries (weightedCounts
            [\<lparr> model_mv = m1, weight_mv = w1, parsed_mv = p \<rparr>,
             \<lparr> model_mv = m2, weight_mv = w2, parsed_mv = q \<rparr>]))) =
          (if verdict_or_unknown \<lparr> model_mv = m1, weight_mv = w1, parsed_mv = p \<rparr>
              = verdict_or_unknown \<lparr> model_mv = m2, weight_mv = w2, parsed_mv = q \<rparr>
           then w1 + w2 else w2)"
proof -
  define k1 where "k1 = verdict_or_unknown \<lparr> model_mv = m1, weight_mv = w1, parsed_mv = p \<rparr>"
  define k2 where "k2 = verdict_or_unknown \<lparr> model_mv = m2, weight_mv = w2, parsed_mv = q \<rparr>"
  define t1 where "t1 = (if inherited_function k1 then Text else Counted w1)"
  define t2 where "t2 = (if inherited_function k2 then Text else Counted w2)"
  define counts where "counts = weightedCounts
            [\<lparr> model_mv = m1, weight_mv = w1, parsed_mv = p \<rparr>,
             \<lparr> model_mv = m2, weight_mv = w2, parsed_mv = q \<rparr>]"
  have c: "counts =
     (if k1 = ''__proto__'' then (if k2 = ''__proto__'' then [] else [(k2, t2)])
      else if k2 = ''__proto__'' then [(k1, t1)]
      else if k1 = k2 then [(k1, if inherited_function k1 then Text else Counted (w1 + w2))]
      else [(k1, t1), (k2, t2)])"
    by (simp add: counts_def weightedCounts_def add_weight_def k1_def k2_def t1_def t2_def)
  have two: "snd (majority (entries [(k1, t1), (k2, t2)])) =
     (case (t1, t2) of (Counted a, Counted b) \<Rightarrow> max a b | (Counted a, Text) \<Rightarrow> a
      | (Text, Counted b) \<Rightarrow> b | (Text, Text) \<Rightarrow> 0)"
    using entries_pair [of "(k1, t1)" "(k2, t2)"] assms
    by (auto simp: majority_def t1_def t2_def)
  from assms have pos: "w1 + w2 > 0" "w2 > 0" by simp_all
  show "snd (majority (entries counts)) \<in> {0, w1, w2, w1 + w2}"
    using assms pos
    by (simp add: c entries_single majority_one majority_none two entries_def [of "[]"])
       (auto simp: t1_def t2_def)
  assume "\<not> inherited k1" "\<not> inherited k2"
  then show "snd (majority (entries counts)) = (if k1 = k2 then w1 + w2 else w2)"
    using assms pos
    by (simp add: c entries_single majority_one majority_none two inherited_def)
       (auto simp: t1_def t2_def)
qed


lemma verify_reached:
  assumes "verify rsp = Some (Aggregated v)"
    and "\<forall>x \<in> set (votes_wf v). \<not> inherited (verdict_or_unknown x)"
  shows "consensus_reached v =
    (length (votes_wf v) = 1 \<or>
     (\<exists>a b. votes_wf v = [a, b] \<and> verdict_or_unknown a = verdict_or_unknown b))"
proof -
  note a = assms(1) [unfolded verify_def]
  note f = aggregate_fields(3,4,5) [OF a]
  from aggregate_Aggregated(1) [OF a] successfulVotes_cases [of rsp]
  consider p where "successfulVotes rsp =
          [\<lparr> model_mv = ''llama-3.1-8b'', weight_mv = 1.0, parsed_mv = p \<rparr>]"
    | p where "successfulVotes rsp =
          [\<lparr> model_mv = ''qwen-14b'', weight_mv = 1.2, parsed_mv = p \<rparr>]"
    | p q where "successfulVotes rsp =
          [\<lparr> model_mv = ''llama-3.1-8b'', weight_mv = 1.0, parsed_mv = p \<rparr>,
           \<lparr> model_mv = ''qwen-14b'', weight_mv = 1.2, parsed_mv = q \<rparr>]"
    by blast
  then show ?thesis
  proof cases
    case 1
    with f assms(2) show ?thesis by (simp add: ratio_one)
  next
    case 2
    with f assms(2) show ?thesis by (simp add: ratio_one)
  next
    case 3
    with f assms(2)
      ratio_two(2) [of "1.0" "1.2" "''llama-3.1-8b''" p "''qwen-14b''" q]
    show ?thesis by (auto split: if_splits)
  qed
qed

lemma run_total:
  "\<exists>bundle storage'. VetProofPipeline_run sha256 stringify inp storage = Some (bundle, storage')"
  using verify_total [of "respond inp"]
  by (auto simp: VetProofPipeline_run_def Let_def)

lemma run_sign:
  assumes "VetProofPipeline_run sha256 stringify inp storage = Some (bundle, storage')"
  shows "\<exists>ver. verify (respond inp) = Some ver \<and>
           (bundle, storage') =
             sign sha256 stringify inp ver (detect ver (claim_evidence_similarity inp)) storage"
  using assms by (auto simp: VetProofPipeline_run_def Let_def split: bind_splits)

subsection \<open>The proof agent, the HITL workflow and the orchestrator\<close>

text \<open>The proof agent guards its averages and returns for every list of models.\<close>

lemma verifyClaimInternal_total: "\<exists>r. verifyClaimInternal ms call = Some r"
  by (auto simp: verifyClaimInternal_def Let_def js_div_def)


lemma hitl_not_approved:
  assumes "HITLApprovalWorkflow_run sha256 stringify HALT_THRESHOLD uuid proof_id approved_at
       processing_time_ms claim priority parsed outcome storage = Inr (res, storage')"
    and "status_h res \<noteq> ''approved''"
  shows "proof_h res = None \<and> storage' = storage"
  using assms
  by (auto simp: HITLApprovalWorkflow_run_def Let_def split: wait_outcome.splits if_splits)

lemma hitl_timeout:
  assumes "requires_human_review (riskAssessment HALT_THRESHOLD
      (case parsed of None \<Rightarrow> default_screening | Some p \<Rightarrow> p) priority claim)"
  shows "HITLApprovalWorkflow_run sha256 stringify HALT_THRESHOLD uuid proof_id approved_at
       processing_time_ms claim priority parsed Timed_out storage = Inl Wait_timeout"
  using assms by (simp add: HITLApprovalWorkflow_run_def Let_def)



subsection \<open>The examples, evaluated\<close>

lemmas object_simps =
  entries_def is_array_index_def digit_char_def sort_entries_def sorts_after_def
  count_verdict_def inherited_function_def function_names_def


lemma votes_pair_snapshot:
  "calculateConsensus ''t1'' votes_pair = Inr (Computed
     \<lparr> status = ''CONSENSUS'', verdict_cs = ''VERIFIED'', agreement_pct = Num 1,
       bft_threshold = 1, avg_confidence = 1 / 2, avg_coherence = 1 / 2,
       confidence_std_dev = 0, halt_triggered = False, total_votes = 2, fault_tolerance = 0,
       verdict_distribution = [(''VERIFIED'', Counted 2)], timestamp_cs = ''t1'' \<rparr>)"
  by (simp add: calculateConsensus_def verdictCounts_def object_simps share_def at_least_def
        js_div_def Let_def votes_pair_def)





lemma successfulVotes_half:
  "successfulVotes respond_half =
     [\<lparr> model_mv = ''llama-3.1-8b'', weight_mv = 1,
         parsed_mv = \<lparr> verdict_p = Some ''VERIFIED'', confidence_p = Some 0.5,
                       cfr_sections_p = JArr [], nexus_strength_p = JStr ''direct'' \<rparr> \<rparr>,
      \<lparr> model_mv = ''qwen-14b'', weight_mv = 1.2,
         parsed_mv = \<lparr> verdict_p = Some ''VERIFIED'', confidence_p = Some 0.5,
                       cfr_sections_p = JArr [], nexus_strength_p = JStr ''direct'' \<rparr> \<rparr>]"
  by (simp add: successfulVotes_def models_def respond_half_def answer_def)

lemmas workflow_simps =
  aggregate_def Let_def js_div_def weightedCounts_def add_weight_def majority_def
  confidence_or_0_def verdict_or_unknown_def entries_def is_array_index_def digit_char_def
  inherited_function_def function_names_def

lemma verify_half:
  "verify respond_half = Some (Aggregated
     \<lparr> consensus = ''VERIFIED'', consensus_reached = True, agreement_ratio = 1,
       bft_threshold_wf = 2 / 3, weighted_confidence = 0.5, confidence_std_dev_wf = 0,
       constitutional_halt = False, votes_wf = successfulVotes respond_half,
       failed_models = 0 \<rparr>)"
  unfolding verify_def
  by (simp add: successfulVotes_half)
     (simp add: workflow_simps failedVotes_def models_def respond_half_def answer_def)

lemma successfulVotes_split:
  "successfulVotes respond_split =
     [\<lparr> model_mv = ''llama-3.1-8b'', weight_mv = 1,
         parsed_mv = \<lparr> verdict_p = Some ''VERIFIED'', confidence_p = Some 1,
                       cfr_sections_p = JArr [], nexus_strength_p = JStr ''direct'' \<rparr> \<rparr>,
      \<lparr> model_mv = ''qwen-14b'', weight_mv = 1.2,
         parsed_mv = \<lparr> verdict_p = Some ''UNVERIFIED'', confidence_p = Some 0,
                       cfr_sections_p = JArr [], nexus_strength_p = JStr ''direct'' \<rparr> \<rparr>]"
  by (simp add: successfulVotes_def models_def respond_split_def answer_def)

lemma verify_split:
  "verify respond_split = Some (Aggregated
     \<lparr> consensus = ''NO_CONSENSUS'', consensus_reached = False, agreement_ratio = 6 / 11,
       bft_threshold_wf = 2 / 3, weighted_confidence = 5 / 11, confidence_std_dev_wf = 0.5,
       constitutional_halt = True, votes_wf = successfulVotes respond_split,
       failed_models = 0 \<rparr>)"
  unfolding verify_def
  by (simp add: successfulVotes_split)
     (simp add: workflow_simps failedVotes_def models_def respond_split_def answer_def
        power2_eq_square sqrt_quarter)




lemma hitl_rejection:
  "HITLApprovalWorkflow_run toy_sha256 toy_stringify None ''uuid-1'' ''proof-1'' ''t1'' 5
       claim_example ''normal'' None (Event (Some rejection)) (Some empty_bucket) =
     Inr (\<lparr> claimId_h = ''c1'', status_h = ''rejected'', decision_h = Some ''rejected'',
            reviewer_h = ''reviewer-1'', auto_approved = False, risk_level_h = ''critical'',
            halt_triggered_h = True, screening_confidence = 0.3, proof_h = None \<rparr>,
          Some empty_bucket)"
  by (simp add: HITLApprovalWorkflow_run_def riskAssessment_def default_screening_def
        claim_example_def rejection_def or_auto_approve_def Let_def)

lemma hitl_expiry:
  "HITLApprovalWorkflow_run toy_sha256 toy_stringify None ''uuid-1'' ''proof-1'' ''t1'' 5
       claim_example ''normal'' None Timed_out (Some empty_bucket) = Inl Wait_timeout"
  by (simp add: HITLApprovalWorkflow_run_def riskAssessment_def default_screening_def
        claim_example_def Let_def)

text \<open>The vote handler on the example requests.\<close>

lemma single_snapshot:
  "calculateConsensus now [stored_row sql_now m v c k r] =
     (if v = ''__proto__'' then Inl TypeError
      else Inr (Computed
        \<lparr> status = ''DISAGREEMENT'', verdict_cs = v,
          agreement_pct = (if inherited_function v then NaN else Num 1),
          bft_threshold = 4 / 3, avg_confidence = c, avg_coherence = k,
          confidence_std_dev = 0, halt_triggered = False, total_votes = 1,
          fault_tolerance = 0,
          verdict_distribution = [(v, if inherited_function v then Text else Counted 1)],
          timestamp_cs = now \<rparr>))"
  by (simp add: calculateConsensus_def verdictCounts_def count_verdict_def entries_single
        sort_entries_single share_def at_least_def js_div_def Let_def stored_row_def
        entries_def [of "[]"] sort_entries_def [of "[]"])







subsection \<open>The vote handler\<close>








subsection \<open>More examples\<close>

lemma session_one_eq:
  "session_one =
     \<lparr> votes_table = [stored_row ''s1'' ''m1'' ''VERIFIED'' (1 / 2) (1 / 2) None],
       state_consensus = Some (Computed
         \<lparr> status = ''DISAGREEMENT'', verdict_cs = ''VERIFIED'', agreement_pct = Num 1,
           bft_threshold = 4 / 3, avg_confidence = 1 / 2, avg_coherence = 1 / 2,
           confidence_std_dev = 0, halt_triggered = False, total_votes = 1,
           fault_tolerance = 0, verdict_distribution = [(''VERIFIED'', Counted 1)],
           timestamp_cs = ''t1'' \<rparr>) \<rparr>"
  by (simp add: session_one_def submitVote_def vote_for_def no_sessions_def
        insert_or_replace_def select_votes_def Let_def single_snapshot
        inherited_function_def function_names_def)

lemma submit_two:
  "submitVote ''s2'' ''t2'' ''m2'' (vote_for ''UNVERIFIED'') session_one =
     (Inr \<lparr> vote_accepted = True, total_votes_sr = 2,
            consensus_sr = Computed
              \<lparr> status = ''DISAGREEMENT'', verdict_cs = ''VERIFIED'', agreement_pct = Num (1 / 2),
                bft_threshold = 1, avg_confidence = 1 / 2, avg_coherence = 1 / 2,
                confidence_std_dev = 0, halt_triggered = False, total_votes = 2,
                fault_tolerance = 0,
                verdict_distribution = [(''VERIFIED'', Counted 1), (''UNVERIFIED'', Counted 1)],
                timestamp_cs = ''t2'' \<rparr>,
            votes_sr = [stored_row ''s1'' ''m1'' ''VERIFIED'' (1 / 2) (1 / 2) None,
                        stored_row ''s2'' ''m2'' ''UNVERIFIED'' (1 / 2) (1 / 2) None] \<rparr>,
      \<lparr> votes_table = [stored_row ''s1'' ''m1'' ''VERIFIED'' (1 / 2) (1 / 2) None,
                        stored_row ''s2'' ''m2'' ''UNVERIFIED'' (1 / 2) (1 / 2) None],
        state_consensus = Some (Computed
              \<lparr> status = ''DISAGREEMENT'', verdict_cs = ''VERIFIED'', agreement_pct = Num (1 / 2),
                bft_threshold = 1, avg_confidence = 1 / 2, avg_coherence = 1 / 2,
                confidence_std_dev = 0, halt_triggered = False, total_votes = 2,
                fault_tolerance = 0,
                verdict_distribution = [(''VERIFIED'', Counted 1), (''UNVERIFIED'', Counted 1)],
                timestamp_cs = ''t2'' \<rparr>) \<rparr>)"
  by (simp add: session_one_eq submitVote_def vote_for_def insert_or_replace_def
        select_votes_def Let_def)
     (simp add: calculateConsensus_def verdictCounts_def object_simps share_def at_least_def
        js_div_def Let_def stored_row_def)

lemma submit_three:
  "submitVote ''s3'' ''t3'' ''m1'' (vote_for ''VERIFIED'') session_two =
     (Inr \<lparr> vote_accepted = True, total_votes_sr = 2,
            consensus_sr = Computed
              \<lparr> status = ''DISAGREEMENT'', verdict_cs = ''UNVERIFIED'',
                agreement_pct = Num (1 / 2),
                bft_threshold = 1, avg_confidence = 1 / 2, avg_coherence = 1 / 2,
                confidence_std_dev = 0, halt_triggered = False, total_votes = 2,
                fault_tolerance = 0,
                verdict_distribution = [(''UNVERIFIED'', Counted 1), (''VERIFIED'', Counted 1)],
                timestamp_cs = ''t3'' \<rparr>,
            votes_sr = [stored_row ''s2'' ''m2'' ''UNVERIFIED'' (1 / 2) (1 / 2) None,
                        stored_row ''s3'' ''m1'' ''VERIFIED'' (1 / 2) (1 / 2) None] \<rparr>,
      \<lparr> votes_table = [stored_row ''s2'' ''m2'' ''UNVERIFIED'' (1 / 2) (1 / 2) None,
                        stored_row ''s3'' ''m1'' ''VERIFIED'' (1 / 2) (1 / 2) None],
        state_consensus = Some (Computed
              \<lparr> status = ''DISAGREEMENT'', verdict_cs = ''UNVERIFIED'',
                agreement_pct = Num (1 / 2),
                bft_threshold = 1, avg_confidence = 1 / 2, avg_coherence = 1 / 2,
                confidence_std_dev = 0, halt_triggered = False, total_votes = 2,
                fault_tolerance = 0,
                verdict_distribution = [(''UNVERIFIED'', Counted 1), (''VERIFIED'', Counted 1)],
                timestamp_cs = ''t3'' \<rparr>) \<rparr>)"
  unfolding session_two_def submit_two
  by (simp add: submitVote_def vote_for_def insert_or_replace_def
        select_votes_def Let_def)
     (simp add: calculateConsensus_def verdictCounts_def object_simps share_def at_least_def
        js_div_def Let_def stored_row_def)

lemma handle_proto:
  "handleConsensusVote ''s1'' ''t1'' ''a1'' (post_vote ''m1'' proto_vote) fresh_env =
     (\<lparr> status_code = 500, body = Exception_body \<rparr>,
      fresh_env\<lparr> SHIELD_CONSENSUS := no_sessions(''c1'' :=
        \<lparr> votes_table = [stored_row ''s1'' ''m1'' ''__proto__'' (1 / 2) (1 / 2) None],
          state_consensus = None \<rparr>) \<rparr>)"
  by (simp add: handleConsensusVote_def post_vote_def proto_vote_def vote_for_def
        fresh_env_def no_sessions_def submitVote_def insert_or_replace_def select_votes_def
        Let_def single_snapshot server_error_def)




subsection \<open>Further facts about snapshots and deviations\<close>






lemma calculateConsensus_Inr:
  assumes "vs \<noteq> []" and "calculateConsensus now vs = Inr c"
  shows "\<exists>s. c = Computed s \<and> total_votes s = length vs"
proof (cases "sort_entries (entries (verdictCounts vs))")
  case Nil
  with assms show ?thesis by (simp add: calculateConsensus_def)
next
  case (Cons mv rest)
  from calculateConsensus_eq [OF assms(1) Cons, of now] assms(2) show ?thesis by auto
qed


subsection \<open>The example runs of the pipeline\<close>

lemma run_verified:
  assumes "verify (respond inp) = Some ver"
  shows "VetProofPipeline_run sha256 stringify inp storage =
           Some (sign sha256 stringify inp ver (detect ver (claim_evidence_similarity inp)) storage)"
  using assms by (simp add: VetProofPipeline_run_def Let_def)

lemma halting_run_eq:
  "halting_run = Some (sign toy_sha256 toy_stringify (pipeline_example ''c3'' respond_split)
      (the (verify respond_split))
      (detect (the (verify respond_split)) 0.75) (Some empty_bucket))"
  unfolding halting_run_def
  by (subst run_verified [of _ "the (verify respond_split)"])
     (simp_all add: pipeline_example_def verify_split)

lemma halting_run_facts:
  "halting_run = Some (fst (the halting_run), snd (the halting_run))"
  "js_get (fst (the halting_run)) ''verdict'' = JStr ''HALTED_FOR_REVIEW''"
  "js_get (fst (the halting_run)) ''proof_hash'' = JStr ''sha:c3''"
  "snd (the halting_run) =
     Some (empty_bucket(''proofs/c3/sha:c3.json'' \<mapsto> fst (the halting_run)))"
proof -
  show "halting_run = Some (fst (the halting_run), snd (the halting_run))"
    by (simp add: halting_run_eq)
  show "js_get (fst (the halting_run)) ''verdict'' = JStr ''HALTED_FOR_REVIEW''"
    by (simp add: halting_run_eq sign_verdict verify_split halt_required_of_flag)
  show h: "js_get (fst (the halting_run)) ''proof_hash'' = JStr ''sha:c3''"
    by (simp add: halting_run_eq sign_hashes)
       (simp add: proofBundle_def toy_stringify_def toy_sha256_def js_get_def
          pipeline_example_def)
  have "toy_sha256 (toy_stringify (proofBundle (pipeline_example ''c3'' respond_split)
      (the (verify respond_split)) (detect (the (verify respond_split)) 0.75))) = ''sha:c3''"
    by (simp add: proofBundle_def toy_stringify_def toy_sha256_def js_get_def
          pipeline_example_def)
  then show "snd (the halting_run) =
     Some (empty_bucket(''proofs/c3/sha:c3.json'' \<mapsto> fst (the halting_run)))"
    by (simp add: halting_run_eq sign_storage) (simp add: pipeline_example_def)
qed

lemma first_run_eq:
  "first_run = Some (sign toy_sha256 toy_stringify (pipeline_example ''c1'' respond_half)
      (the (verify respond_half))
      (detect (the (verify respond_half)) 0.75) (Some empty_bucket))"
  unfolding first_run_def
  by (subst run_verified [of _ "the (verify respond_half)"])
     (simp_all add: pipeline_example_def verify_half)

lemma second_run_eq:
  "second_run = Some (sign toy_sha256 toy_stringify (pipeline_example ''c2'' respond_half)
      (the (verify respond_half))
      (detect (the (verify respond_half)) 0.75) (snd (the first_run)))"
  unfolding second_run_def
  by (subst run_verified [of _ "the (verify respond_half)"])
     (simp_all add: pipeline_example_def verify_half)

lemma chained_runs:
  "first_run = Some (fst (the first_run), snd (the first_run))"
  "second_run = Some (fst (the second_run), snd (the second_run))"
  "js_get (fst (the first_run)) ''proof_hash'' = JStr ''sha:c1''"
  "js_get (fst (the second_run)) ''proof_hash'' = JStr ''sha:c2''"
  "js_get (fst (the second_run)) ''previous_hash'' = JUndefined"
proof -
  show "first_run = Some (fst (the first_run), snd (the first_run))"
    by (simp add: first_run_eq)
  show "second_run = Some (fst (the second_run), snd (the second_run))"
    by (simp add: second_run_eq)
  show "js_get (fst (the first_run)) ''proof_hash'' = JStr ''sha:c1''"
    by (simp add: first_run_eq sign_hashes)
       (simp add: proofBundle_def toy_stringify_def toy_sha256_def js_get_def
          pipeline_example_def)
  show "js_get (fst (the second_run)) ''proof_hash'' = JStr ''sha:c2''"
    by (simp add: second_run_eq sign_hashes)
       (simp add: proofBundle_def toy_stringify_def toy_sha256_def js_get_def
          pipeline_example_def)
  show "js_get (fst (the second_run)) ''previous_hash'' = JUndefined"
    by (simp add: second_run_eq sign_hashes)
qed

section \<open>The claims\<close>









text \<open>
  C4, as claimed: with fewer than three votes no consensus is reported. The code has no
  minimum number of votes: two votes for the same verdict are a consensus.
\<close>

theorem C4_counterexample:
  "length votes_pair = 2 \<and>
   calculateConsensus ''t1'' votes_pair = Inr (Computed
     \<lparr> status = ''CONSENSUS'', verdict_cs = ''VERIFIED'', agreement_pct = Num 1,
       bft_threshold = 1, avg_confidence = 1 / 2, avg_coherence = 1 / 2,
       confidence_std_dev = 0, halt_triggered = False, total_votes = 2, fault_tolerance = 0,
       verdict_distribution = [(''VERIFIED'', Counted 2)], timestamp_cs = ''t1'' \<rparr>)"
  using votes_pair_snapshot by (simp add: votes_pair_def)

text \<open>
  C4, amended: for fewer than three votes whose verdicts are not names of members of
  \<open>Object.prototype\<close> (\<open>constructor\<close>, \<open>toString\<close>, \<open>__proto__\<close> and the like),
  \<open>calculateConsensus\<close> reports consensus exactly when there are two votes and they name
  the same verdict. The verify step of the workflow always has fewer than three votes, and
  for such verdicts it reaches consensus exactly when there is one vote, or two votes with
  the same verdict.
\<close>

theorem C4_small_vote_sets:
  "(length vs < 3 \<longrightarrow> (\<forall>x \<in> set vs. \<not> inherited (verdict x)) \<longrightarrow>
      calculateConsensus now vs = Inr (Computed s) \<longrightarrow>
      (status s = ''CONSENSUS'') = (\<exists>a b. vs = [a, b] \<and> verdict a = verdict b))
   \<and> (verify rsp = Some (Aggregated v) \<longrightarrow>
        length (votes_wf v) < 3 \<and>
        ((\<forall>x \<in> set (votes_wf v). \<not> inherited (verdict_or_unknown x)) \<longrightarrow>
         consensus_reached v =
           (length (votes_wf v) = 1 \<or>
            (\<exists>a b. votes_wf v = [a, b] \<and> verdict_or_unknown a = verdict_or_unknown b))))"
  using calculateConsensus_small [of vs now s] verify_reached [of rsp v] verify_length [of rsp v]
  by blast

theorem C4_witness:
  "length votes_pair < 3 \<and>
   map (\<lambda>x. inherited (verdict x)) votes_pair = [False, False] \<and>
   map_sum id (\<lambda>c. case c of Computed s \<Rightarrow> status s | Pending x \<Rightarrow> x)
     (calculateConsensus ''t1'' votes_pair) = Inr ''CONSENSUS'' \<and>
   map (\<lambda>x. inherited (verdict_or_unknown x)) (successfulVotes respond_half) = [False, False] \<and>
   map_option consensus_reached_of (verify respond_half) = Some (Some True) \<and>
   map (\<lambda>x. inherited (verdict_or_unknown x)) (successfulVotes respond_split) = [False, False] \<and>
   map_option consensus_reached_of (verify respond_split) = Some (Some False)"
proof -
  have len: "length votes_pair < 3" by (simp add: votes_pair_def)
  have plain: "\<forall>x \<in> set votes_pair. \<not> inherited (verdict x)"
    by (simp add: votes_pair_def inherited_def inherited_function_def function_names_def)
  have plain_half: "\<forall>x \<in> set (successfulVotes respond_half). \<not> inherited (verdict_or_unknown x)"
    by (simp add: successfulVotes_half verdict_or_unknown_def inherited_def
          inherited_function_def function_names_def)
  have plain_split: "\<forall>x \<in> set (successfulVotes respond_split). \<not> inherited (verdict_or_unknown x)"
    by (simp add: successfulVotes_split verdict_or_unknown_def inherited_def
          inherited_function_def function_names_def)
  note half = C4_small_vote_sets [of votes_pair "''t1''" _ respond_half]
  note split = C4_small_vote_sets [of votes_pair "''t1''" _ respond_split]
  from half len plain votes_pair_snapshot
  have 1: "map_sum id (\<lambda>c. case c of Computed s \<Rightarrow> status s | Pending x \<Rightarrow> x)
     (calculateConsensus ''t1'' votes_pair) = Inr ''CONSENSUS''"
    by simp
  from half verify_half plain_half
  have 2: "map_option consensus_reached_of (verify respond_half) = Some (Some True)"
    by (simp add: consensus_reached_of_def)
  from split verify_split plain_split
  have 3: "map_option consensus_reached_of (verify respond_split) = Some (Some False)"
    by (simp add: consensus_reached_of_def)
  have "map (\<lambda>x. inherited (verdict x)) votes_pair = [False, False]"
    by (simp add: votes_pair_def inherited_def inherited_function_def function_names_def)
  moreover
  have "map (\<lambda>x. inherited (verdict_or_unknown x)) (successfulVotes respond_half)
      = [False, False]"
    by (simp add: successfulVotes_half verdict_or_unknown_def inherited_def
          inherited_function_def function_names_def)
  moreover
  have "map (\<lambda>x. inherited (verdict_or_unknown x)) (successfulVotes respond_split)
      = [False, False]"
    by (simp add: successfulVotes_split verdict_or_unknown_def inherited_def
          inherited_function_def function_names_def)
  ultimately show ?thesis using len 1 2 3 by simp
qed




text \<open>
  C6, as claimed: a run that ends in a HITL rejection, or in the expiry of the review
  deadline, still writes a proof record. In the code a rejected claim gets no proof and the
  bucket is unchanged, and the expiry ends the run with the timeout error.
\<close>

theorem C6_counterexample:
  "HITLApprovalWorkflow_run toy_sha256 toy_stringify None ''uuid-1'' ''proof-1'' ''t1'' 5
       claim_example ''normal'' None (Event (Some rejection)) (Some empty_bucket) =
     Inr (\<lparr> claimId_h = ''c1'', status_h = ''rejected'', decision_h = Some ''rejected'',
            reviewer_h = ''reviewer-1'', auto_approved = False, risk_level_h = ''critical'',
            halt_triggered_h = True, screening_confidence = 0.3, proof_h = None \<rparr>,
          Some empty_bucket) \<and>
   HITLApprovalWorkflow_run toy_sha256 toy_stringify None ''uuid-1'' ''proof-1'' ''t1'' 5
       claim_example ''normal'' None Timed_out (Some empty_bucket) = Inl Wait_timeout"
  using hitl_rejection hitl_expiry by simp

text \<open>
  C6, amended: from the verify step on, a run of the verification pipeline always ends with
  a proof bundle, and a run whose verdict is the halt verdict still writes its bundle to the
  proof storage (when the storage is bound). The HITL workflow writes a proof only for an
  approved claim: after a rejection it returns no proof and leaves the storage as it was, and
  when the wait for the reviewer runs into its timeout the run ends with that error, before
  any proof is written.
\<close>

theorem C6_halt_proofs:
  "(\<exists>bundle storage'.
      VetProofPipeline_run sha256 stringify inp (Some b) = Some (bundle, storage') \<and>
      (js_get bundle ''verdict'' = JStr ''HALTED_FOR_REVIEW'' \<longrightarrow>
         (\<exists>h. js_get bundle ''proof_hash'' = JStr h \<and>
              storage' = Some (b(''proofs/'' @ claim_id inp @ ''/'' @ h @ ''.json'' \<mapsto> bundle)))))
   \<and> (HITLApprovalWorkflow_run sha256 stringify HALT_THRESHOLD uuid proof_id approved_at
         processing_time_ms claim priority parsed outcome storage = Inr (res, storage2) \<longrightarrow>
        status_h res \<noteq> ''approved'' \<longrightarrow> proof_h res = None \<and> storage2 = storage)
   \<and> (requires_human_review (riskAssessment HALT_THRESHOLD
           (case parsed of None \<Rightarrow> default_screening | Some p \<Rightarrow> p) priority claim) \<longrightarrow>
        HITLApprovalWorkflow_run sha256 stringify HALT_THRESHOLD uuid proof_id approved_at
          processing_time_ms claim priority parsed Timed_out storage = Inl Wait_timeout)"
proof (intro conjI impI)
  obtain bdl st' where
    rn: "VetProofPipeline_run sha256 stringify inp (Some b) = Some (bdl, st')"
    using run_total by blast
  from run_sign [OF rn] obtain ver where
    s: "(bdl, st') =
          sign sha256 stringify inp ver (detect ver (claim_evidence_similarity inp)) (Some b)"
    by blast
  from s have b: "bdl =
      fst (sign sha256 stringify inp ver (detect ver (claim_evidence_similarity inp)) (Some b))"
    and st: "st' =
      snd (sign sha256 stringify inp ver (detect ver (claim_evidence_similarity inp)) (Some b))"
    by (metis fst_conv, metis snd_conv)
  have "js_get bdl ''proof_hash'' = JStr (sha256 (stringify
          (proofBundle inp ver (detect ver (claim_evidence_similarity inp)))))"
    unfolding b by (rule sign_hashes)
  moreover have "st' = Some (b(''proofs/'' @ claim_id inp @ ''/'' @ sha256 (stringify
          (proofBundle inp ver (detect ver (claim_evidence_similarity inp)))) @ ''.json''
        \<mapsto> bdl))"
    unfolding st b by (rule sign_storage)
  ultimately show "\<exists>bundle storage'.
      VetProofPipeline_run sha256 stringify inp (Some b) = Some (bundle, storage') \<and>
      (js_get bundle ''verdict'' = JStr ''HALTED_FOR_REVIEW'' \<longrightarrow>
         (\<exists>h. js_get bundle ''proof_hash'' = JStr h \<and>
              storage' = Some (b(''proofs/'' @ claim_id inp @ ''/'' @ h @ ''.json'' \<mapsto> bundle))))"
    using rn by blast
next
  assume "HITLApprovalWorkflow_run sha256 stringify HALT_THRESHOLD uuid proof_id approved_at
         processing_time_ms claim priority parsed outcome storage = Inr (res, storage2)"
    and "status_h res \<noteq> ''approved''"
  then show "proof_h res = None" and "storage2 = storage"
    using hitl_not_approved by blast+
next
  assume "requires_human_review (riskAssessment HALT_THRESHOLD
           (case parsed of None \<Rightarrow> default_screening | Some p \<Rightarrow> p) priority claim)"
  then show "HITLApprovalWorkflow_run sha256 stringify HALT_THRESHOLD uuid proof_id approved_at
          processing_time_ms claim priority parsed Timed_out storage = Inl Wait_timeout"
    by (rule hitl_timeout)
qed

theorem C6_witness:
  "halting_run = Some (fst (the halting_run), snd (the halting_run)) \<and>
   js_get (fst (the halting_run)) ''verdict'' = JStr ''HALTED_FOR_REVIEW'' \<and>
   js_get (fst (the halting_run)) ''proof_hash'' = JStr ''sha:c3'' \<and>
   snd (the halting_run) =
     Some (empty_bucket(''proofs/c3/sha:c3.json'' \<mapsto> fst (the halting_run))) \<and>
   map_sum id (proof_h \<circ> fst)
     (HITLApprovalWorkflow_run toy_sha256 toy_stringify None ''uuid-1'' ''proof-1'' ''t1'' 5
        claim_example ''normal'' None (Event (Some rejection)) (Some empty_bucket)) = Inr None \<and>
   HITLApprovalWorkflow_run toy_sha256 toy_stringify None ''uuid-1'' ''proof-1'' ''t1'' 5
       claim_example ''normal'' None Timed_out (Some empty_bucket) = Inl Wait_timeout"
proof -
  note inst = C6_halt_proofs [of toy_sha256 toy_stringify
      "pipeline_example ''c3'' respond_split" empty_bucket None "''uuid-1''" "''proof-1''"
      "''t1''" 5 claim_example "''normal''" None "Event (Some rejection)" "Some empty_bucket"]
  from inst obtain bdl st' where
    rn: "halting_run = Some (bdl, st')"
    and w: "js_get bdl ''verdict'' = JStr ''HALTED_FOR_REVIEW'' \<longrightarrow>
         (\<exists>h. js_get bdl ''proof_hash'' = JStr h \<and>
              st' = Some (empty_bucket(''proofs/'' @ claim_id (pipeline_example ''c3'' respond_split)
                 @ ''/'' @ h @ ''.json'' \<mapsto> bdl)))"
    unfolding halting_run_def by blast
  have the_run: "the halting_run = (bdl, st')" by (metis rn option.sel)
  from halting_run_facts(2,3) have verdict: "js_get bdl ''verdict'' = JStr ''HALTED_FOR_REVIEW''"
    and hash: "js_get bdl ''proof_hash'' = JStr ''sha:c3''"
    by (simp_all add: the_run)
  from w verdict hash have
    "st' = Some (empty_bucket(''proofs/c3/sha:c3.json'' \<mapsto> bdl))"
    by (auto simp: pipeline_example_def)
  with verdict hash the_run show ?thesis
    using hitl_rejection hitl_expiry by (simp add: rn)
qed

text \<open>
  C7, as claimed: a later proof record carries a \<open>previous_hash\<close> equal to the
  \<open>proof_hash\<close> of the record before it. The record of a second run, written to the bucket
  that holds the record of the first, has no \<open>previous_hash\<close> at all.
\<close>

theorem C7_counterexample:
  "first_run = Some (fst (the first_run), snd (the first_run)) \<and>
   second_run = Some (fst (the second_run), snd (the second_run)) \<and>
   js_get (fst (the first_run)) ''proof_hash'' = JStr ''sha:c1'' \<and>
   js_get (fst (the second_run)) ''previous_hash'' = JUndefined"
  using chained_runs by simp

text \<open>
  C7, amended: a proof record written by the sign step of the workflow carries
  \<open>proof_hash\<close>, the SHA-256 of its own serialisation, and no \<open>previous_hash\<close>; it is
  stored under a key made of its claim id and its own hash. The record written by the sign
  stage of the queue consumer is stored under its claim id, again with its own
  \<open>proof_hash\<close> (the SHA-256 of the claim id, the payload and the time of signing) and
  without a \<open>previous_hash\<close>. No record refers to another.
\<close>

theorem C7_records_are_not_linked:
  "(VetProofPipeline_run sha256 stringify inp storage = Some (bundle, storage') \<longrightarrow>
      js_get bundle ''previous_hash'' = JUndefined \<and>
      (\<exists>ver. verify (respond inp) = Some ver \<and>
         js_get bundle ''proof_hash'' = JStr (sha256 (stringify
           (proofBundle inp ver (detect ver (claim_evidence_similarity inp))))) \<and>
         (\<forall>b. storage = Some b \<longrightarrow>
            storage' = Some (b(''proofs/'' @ claim_id inp @ ''/'' @ sha256 (stringify
              (proofBundle inp ver (detect ver (claim_evidence_similarity inp)))) @ ''.json''
              \<mapsto> bundle)))))
   \<and> (\<exists>record.
        processSign sha256 stringify signed_at stored_at claimId payload (Some b0) =
          Some (b0(''proofs/'' @ claimId @ ''.json'' \<mapsto> record)) \<and>
        js_get record ''previous_hash'' = JUndefined \<and>
        js_get record ''proof_hash'' = JStr (sha256 (stringify
          (JObj [(''claim_id'', JStr claimId), (''payload'', payload),
                 (''signed_at'', JStr signed_at)]))))"
proof (intro conjI impI)
  assume rn: "VetProofPipeline_run sha256 stringify inp storage = Some (bundle, storage')"
  from run_sign [OF rn] obtain ver where v: "verify (respond inp) = Some ver"
    and s: "(bundle, storage') =
          sign sha256 stringify inp ver (detect ver (claim_evidence_similarity inp)) storage"
    by blast
  from s have b: "bundle =
      fst (sign sha256 stringify inp ver (detect ver (claim_evidence_similarity inp)) storage)"
    and st: "storage' =
      snd (sign sha256 stringify inp ver (detect ver (claim_evidence_similarity inp)) storage)"
    by (metis fst_conv, metis snd_conv)
  show "js_get bundle ''previous_hash'' = JUndefined"
    unfolding b by (rule sign_hashes)
  have "js_get bundle ''proof_hash'' = JStr (sha256 (stringify
           (proofBundle inp ver (detect ver (claim_evidence_similarity inp)))))"
    unfolding b by (rule sign_hashes)
  moreover have "\<forall>b. storage = Some b \<longrightarrow>
            storage' = Some (b(''proofs/'' @ claim_id inp @ ''/'' @ sha256 (stringify
              (proofBundle inp ver (detect ver (claim_evidence_similarity inp)))) @ ''.json''
              \<mapsto> bundle))"
    unfolding st b by (auto simp: sign_storage)
  ultimately show "\<exists>ver. verify (respond inp) = Some ver \<and>
         js_get bundle ''proof_hash'' = JStr (sha256 (stringify
           (proofBundle inp ver (detect ver (claim_evidence_similarity inp))))) \<and>
         (\<forall>b. storage = Some b \<longrightarrow>
            storage' = Some (b(''proofs/'' @ claim_id inp @ ''/'' @ sha256 (stringify
              (proofBundle inp ver (detect ver (claim_evidence_similarity inp)))) @ ''.json''
              \<mapsto> bundle)))"
    using v by blast
next
  show "\<exists>record.
        processSign sha256 stringify signed_at stored_at claimId payload (Some b0) =
          Some (b0(''proofs/'' @ claimId @ ''.json'' \<mapsto> record)) \<and>
        js_get record ''previous_hash'' = JUndefined \<and>
        js_get record ''proof_hash'' = JStr (sha256 (stringify
          (JObj [(''claim_id'', JStr claimId), (''payload'', payload),
                 (''signed_at'', JStr signed_at)])))"
    by (rule exI [of _ "JObj [(''claim_id'', JStr claimId),
          (''proof_hash'', JStr (sha256 (stringify
             (JObj [(''claim_id'', JStr claimId), (''payload'', payload),
                    (''signed_at'', JStr signed_at)])))),
          (''pipeline_complete'', JBool True),
          (''stages_completed'',
             JArr [JStr ''SANITIZE'', JStr ''GENERATE'', JStr ''VERIFY'',
                   JStr ''DETECT'', JStr ''SIGN'']),
          (''final_payload'', payload),
          (''signed_at'', JStr stored_at)]"])
       (simp add: processSign_def Let_def js_get_def)
qed

theorem C7_witness:
  "second_run = Some (fst (the second_run), snd (the second_run)) \<and>
   js_get (fst (the second_run)) ''previous_hash'' = JUndefined \<and>
   js_get (fst (the second_run)) ''proof_hash'' = JStr ''sha:c2''"
proof -
  note inst = C7_records_are_not_linked [of toy_sha256 toy_stringify
      "pipeline_example ''c2'' respond_half" "snd (the first_run)"
      "fst (the second_run)" "snd (the second_run)"]
  from inst chained_runs(2)
  have p: "js_get (fst (the second_run)) ''previous_hash'' = JUndefined"
    and "\<exists>ver. js_get (fst (the second_run)) ''proof_hash'' = JStr (toy_sha256 (toy_stringify
           (proofBundle (pipeline_example ''c2'' respond_half) ver
              (detect ver (claim_evidence_similarity (pipeline_example ''c2'' respond_half))))))"
    unfolding second_run_def by blast+
  then have "js_get (fst (the second_run)) ''proof_hash'' = JStr ''sha:c2''"
    by (auto simp: proofBundle_def toy_stringify_def toy_sha256_def js_get_def
          pipeline_example_def)
  with p chained_runs(2) show ?thesis by simp
qed




text \<open>
  C9, as claimed: submitting the identical vote twice yields the same snapshot as submitting
  it once. Model \<open>m1\<close> votes \<open>VERIFIED\<close> and model \<open>m2\<close> votes \<open>UNVERIFIED\<close>, both with
  confidence 0.5: the snapshot names \<open>VERIFIED\<close>. Then \<open>m1\<close> submits its vote again: its row
  moves behind that of \<open>m2\<close>, and the snapshot names \<open>UNVERIFIED\<close>.
\<close>

theorem C9_counterexample:
  "fst (submitVote ''s2'' ''t2'' ''m2'' (vote_for ''UNVERIFIED'') session_one) =
     Inr \<lparr> vote_accepted = True, total_votes_sr = 2,
           consensus_sr = Computed
             \<lparr> status = ''DISAGREEMENT'', verdict_cs = ''VERIFIED'', agreement_pct = Num (1 / 2),
               bft_threshold = 1, avg_confidence = 1 / 2, avg_coherence = 1 / 2,
               confidence_std_dev = 0, halt_triggered = False, total_votes = 2,
               fault_tolerance = 0,
               verdict_distribution = [(''VERIFIED'', Counted 1), (''UNVERIFIED'', Counted 1)],
               timestamp_cs = ''t2'' \<rparr>,
           votes_sr = [stored_row ''s1'' ''m1'' ''VERIFIED'' (1 / 2) (1 / 2) None,
                       stored_row ''s2'' ''m2'' ''UNVERIFIED'' (1 / 2) (1 / 2) None] \<rparr> \<and>
   fst (submitVote ''s3'' ''t3'' ''m1'' (vote_for ''VERIFIED'') session_two) =
     Inr \<lparr> vote_accepted = True, total_votes_sr = 2,
           consensus_sr = Computed
             \<lparr> status = ''DISAGREEMENT'', verdict_cs = ''UNVERIFIED'',
               agreement_pct = Num (1 / 2),
               bft_threshold = 1, avg_confidence = 1 / 2, avg_coherence = 1 / 2,
               confidence_std_dev = 0, halt_triggered = False, total_votes = 2,
               fault_tolerance = 0,
               verdict_distribution = [(''UNVERIFIED'', Counted 1), (''VERIFIED'', Counted 1)],
               timestamp_cs = ''t3'' \<rparr>,
           votes_sr = [stored_row ''s2'' ''m2'' ''UNVERIFIED'' (1 / 2) (1 / 2) None,
                       stored_row ''s3'' ''m1'' ''VERIFIED'' (1 / 2) (1 / 2) None] \<rparr>"
  by (simp add: submit_two submit_three)

text \<open>
  C9, amended: when a model submits the identical vote again and no other vote has been
  submitted in between, the call succeeds again; the table holds the rows of the other models
  as before and, behind them, the one row of the model (with the time of the second call);
  the snapshot is the snapshot of the first submission, read at the clock of the second call;
  it is computed from the table, counts as many votes as the table has rows, and is stored.
  (After votes of other models, a resubmission moves the row of the model behind theirs,
  which can change the verdict that is reported among equally supported verdicts.)
\<close>

theorem C9_resubmission_at_once:
  assumes "submitVote sql1 now1 m vote st = (Inr r1, st1)"
  shows "\<exists>r2 v c k s.
           verdict_in vote = Some v \<and> confidence_in vote = Some c \<and>
           coherence_score_in vote = Some k \<and>
           votes_table st1 = filter (\<lambda>x. model_id x \<noteq> m) (votes_table st)
                               @ [stored_row sql1 m v c k (reasoning_in vote)] \<and>
           submitVote sql2 now2 m vote st1 =
             (Inr r2,
              \<lparr> votes_table = filter (\<lambda>x. model_id x \<noteq> m) (votes_table st)
                                @ [stored_row sql2 m v c k (reasoning_in vote)],
                state_consensus = Some (consensus_sr r2) \<rparr>) \<and>
           consensus_sr r2 = restamp now2 (consensus_sr r1) \<and>
           consensus_sr r2 = Computed s \<and>
           total_votes s = length (votes_table st1) \<and>
           vote_accepted r2 \<and>
           total_votes_sr r2 = total_votes_sr r1 \<and>
           votes_sr r2 = select_votes (filter (\<lambda>x. model_id x \<noteq> m) (votes_table st)
                                        @ [stored_row sql2 m v c k (reasoning_in vote)]) \<and>
           calculateConsensus now2 (votes_sr r2) = Inr (consensus_sr r2)"
proof -
  from submitVote_Inr [OF assms] obtain v c k where
    f: "verdict_in vote = Some v" "confidence_in vote = Some c" "coherence_score_in vote = Some k"
    and c1: "calculateConsensus now1 (select_votes (insert_or_replace
             (stored_row sql1 m v c k (reasoning_in vote)) (votes_table st)))
             = Inr (consensus_sr r1)"
    and n1: "total_votes_sr r1 = length (votes_sr r1)"
    and v1: "votes_sr r1 = select_votes (insert_or_replace
             (stored_row sql1 m v c k (reasoning_in vote)) (votes_table st))"
    and s1: "st1 = \<lparr> votes_table = insert_or_replace
                     (stored_row sql1 m v c k (reasoning_in vote)) (votes_table st),
                   state_consensus = Some (consensus_sr r1) \<rparr>"
    by blast
  define row where "row = stored_row sql1 m v c k (reasoning_in vote)"
  define g :: "vote_row \<Rightarrow> vote_row"
    where "g = (\<lambda>x. if model_id x = model_id row then x\<lparr>timestamp := sql2\<rparr> else x)"
  define rows1 where "rows1 = insert_or_replace row (votes_table st)"
  define rows2 where "rows2 = filter (\<lambda>x. model_id x \<noteq> m) (votes_table st)
                               @ [stored_row sql2 m v c k (reasoning_in vote)]"
  have g: "\<And>r. confidence (g r) = confidence r" "\<And>r. verdict (g r) = verdict r"
    "\<And>r. coherence_score (g r) = coherence_score r"
    by (simp_all add: g_def)
  have t1: "votes_table st1 = rows1" by (simp add: s1 rows1_def row_def)
  have m: "model_id row = m" by (simp add: row_def stored_row_def)
  have rows1: "rows1 = filter (\<lambda>x. model_id x \<noteq> m) (votes_table st) @ [row]"
    by (simp add: rows1_def insert_or_replace_def m)
  have row2: "stored_row sql2 m v c k (reasoning_in vote) = row\<lparr>timestamp := sql2\<rparr>"
    by (simp add: row_def stored_row_def)
  have map2: "insert_or_replace (row\<lparr>timestamp := sql2\<rparr>) rows1 = map g rows1"
    unfolding rows1_def g_def by (rule replace_twice)
  have ins2: "insert_or_replace (stored_row sql2 m v c k (reasoning_in vote)) rows1 = rows2"
    using m by (simp add: rows1_def rows2_def insert_or_replace_def stored_row_def)
  then have r2g: "rows2 = map g rows1" by (simp add: row2 map2)
  have len: "length rows2 = length rows1" by (simp add: r2g)
  have sel: "select_votes rows2 = map g (select_votes rows1)"
    unfolding r2g by (rule select_votes_map) (simp add: g)
  have "calculateConsensus now2 (select_votes rows2)
          = calculateConsensus now2 (select_votes rows1)"
    unfolding sel by (rule calculateConsensus_map) (simp_all add: g)
  also have "\<dots> = map_sum id (restamp now2) (calculateConsensus now1 (select_votes rows1))"
    by (rule calculateConsensus_clock)
  also have "\<dots> = Inr (restamp now2 (consensus_sr r1))"
    using c1 by (simp add: rows1_def row_def)
  finally have c2: "calculateConsensus now2 (select_votes rows2)
     = Inr (restamp now2 (consensus_sr r1))" .
  have ne: "select_votes rows2 \<noteq> []"
    using length_select_votes [of rows2] by (auto simp: rows2_def)
  from calculateConsensus_Inr [OF ne c2] obtain s
    where s: "restamp now2 (consensus_sr r1) = Computed s"
      and ts: "total_votes s = length (select_votes rows2)" by blast
  define r2 where "r2 = \<lparr> vote_accepted = True, total_votes_sr = length (select_votes rows2),
      consensus_sr = restamp now2 (consensus_sr r1), votes_sr = select_votes rows2 \<rparr>"
  have c2': "calculateConsensus now2 (select_votes (insert_or_replace
              (stored_row sql2 m v c k (reasoning_in vote)) (votes_table st1)))
            = Inr (restamp now2 (consensus_sr r1))"
    by (simp add: t1 ins2 c2)
  from submitVote_result [OF f c2']
  have second: "submitVote sql2 now2 m vote st1 =
      (Inr r2, \<lparr> votes_table = rows2, state_consensus = Some (consensus_sr r2) \<rparr>)"
    by (simp add: t1 ins2 r2_def)
  have "total_votes_sr r2 = total_votes_sr r1"
    by (simp add: r2_def n1 v1 length_select_votes len rows1_def row_def)
  moreover have "total_votes s = length (votes_table st1)"
    by (simp add: ts t1 length_select_votes len)
  moreover have "votes_table st1 = filter (\<lambda>x. model_id x \<noteq> m) (votes_table st)
                               @ [stored_row sql1 m v c k (reasoning_in vote)]"
    by (simp add: t1 rows1 row_def)
  moreover have "consensus_sr r2 = restamp now2 (consensus_sr r1)" "consensus_sr r2 = Computed s"
    "vote_accepted r2" "votes_sr r2 = select_votes rows2"
    "calculateConsensus now2 (votes_sr r2) = Inr (consensus_sr r2)"
    by (simp_all add: r2_def s [symmetric] c2)
  ultimately show ?thesis
    using f second unfolding rows2_def by blast
qed

theorem C9_witness:
  "\<exists>r2. submitVote ''s3'' ''t3'' ''m2'' (vote_for ''UNVERIFIED'') session_two =
       (Inr r2,
        \<lparr> votes_table = [stored_row ''s1'' ''m1'' ''VERIFIED'' (1 / 2) (1 / 2) None,
                          stored_row ''s3'' ''m2'' ''UNVERIFIED'' (1 / 2) (1 / 2) None],
          state_consensus = Some (consensus_sr r2) \<rparr>) \<and>
     consensus_sr r2 = Computed
       \<lparr> status = ''DISAGREEMENT'', verdict_cs = ''VERIFIED'', agreement_pct = Num (1 / 2),
         bft_threshold = 1, avg_confidence = 1 / 2, avg_coherence = 1 / 2,
         confidence_std_dev = 0, halt_triggered = False, total_votes = 2,
         fault_tolerance = 0,
         verdict_distribution = [(''VERIFIED'', Counted 1), (''UNVERIFIED'', Counted 1)],
         timestamp_cs = ''t3'' \<rparr> \<and>
     total_votes_sr r2 = 2"
proof -
  have first: "submitVote ''s2'' ''t2'' ''m2'' (vote_for ''UNVERIFIED'') session_one =
      (Inr (projr (fst (submitVote ''s2'' ''t2'' ''m2'' (vote_for ''UNVERIFIED'') session_one))),
       session_two)"
    by (simp add: session_two_def submit_two)
  have t: "votes_table session_one = [stored_row ''s1'' ''m1'' ''VERIFIED'' (1 / 2) (1 / 2) None]"
    by (simp add: session_one_eq)
  have r1: "projr (fst (submitVote ''s2'' ''t2'' ''m2'' (vote_for ''UNVERIFIED'') session_one)) =
      \<lparr> vote_accepted = True, total_votes_sr = 2,
        consensus_sr = Computed
          \<lparr> status = ''DISAGREEMENT'', verdict_cs = ''VERIFIED'', agreement_pct = Num (1 / 2),
            bft_threshold = 1, avg_confidence = 1 / 2, avg_coherence = 1 / 2,
            confidence_std_dev = 0, halt_triggered = False, total_votes = 2,
            fault_tolerance = 0,
            verdict_distribution = [(''VERIFIED'', Counted 1), (''UNVERIFIED'', Counted 1)],
            timestamp_cs = ''t2'' \<rparr>,
        votes_sr = [stored_row ''s1'' ''m1'' ''VERIFIED'' (1 / 2) (1 / 2) None,
                    stored_row ''s2'' ''m2'' ''UNVERIFIED'' (1 / 2) (1 / 2) None] \<rparr>"
    by (simp add: submit_two)
  from C9_resubmission_at_once [OF first, of "''s3''" "''t3''"]
  obtain r2 v c k s where
    a: "verdict_in (vote_for ''UNVERIFIED'') = Some v"
    "confidence_in (vote_for ''UNVERIFIED'') = Some c"
    "coherence_score_in (vote_for ''UNVERIFIED'') = Some k"
    and b: "submitVote ''s3'' ''t3'' ''m2'' (vote_for ''UNVERIFIED'') session_two =
             (Inr r2,
              \<lparr> votes_table = filter (\<lambda>x. model_id x \<noteq> ''m2'') (votes_table session_one)
                  @ [stored_row ''s3'' ''m2'' v c k (reasoning_in (vote_for ''UNVERIFIED''))],
                state_consensus = Some (consensus_sr r2) \<rparr>)"
    and d: "consensus_sr r2 = restamp ''t3''
       (consensus_sr (projr (fst (submitVote ''s2'' ''t2'' ''m2'' (vote_for ''UNVERIFIED'')
          session_one))))"
    and n: "total_votes_sr r2 = total_votes_sr
       (projr (fst (submitVote ''s2'' ''t2'' ''m2'' (vote_for ''UNVERIFIED'') session_one)))"
    by blast
  from a have v: "v = ''UNVERIFIED''" "c = 1 / 2" "k = 1 / 2"
    by (simp_all add: vote_for_def)
  have rn: "reasoning_in (vote_for ''UNVERIFIED'') = None" by (simp add: vote_for_def)
  have f: "filter (\<lambda>x. model_id x \<noteq> ''m2'') (votes_table session_one)
      = [stored_row ''s1'' ''m1'' ''VERIFIED'' (1 / 2) (1 / 2) None]"
    by (simp add: t stored_row_def)
  from b have b': "submitVote ''s3'' ''t3'' ''m2'' (vote_for ''UNVERIFIED'') session_two =
       (Inr r2,
        \<lparr> votes_table = [stored_row ''s1'' ''m1'' ''VERIFIED'' (1 / 2) (1 / 2) None,
                          stored_row ''s3'' ''m2'' ''UNVERIFIED'' (1 / 2) (1 / 2) None],
          state_consensus = Some (consensus_sr r2) \<rparr>)"
    unfolding v rn f by simp
  from d have d': "consensus_sr r2 = Computed
       \<lparr> status = ''DISAGREEMENT'', verdict_cs = ''VERIFIED'', agreement_pct = Num (1 / 2),
         bft_threshold = 1, avg_confidence = 1 / 2, avg_coherence = 1 / 2,
         confidence_std_dev = 0, halt_triggered = False, total_votes = 2,
         fault_tolerance = 0,
         verdict_distribution = [(''VERIFIED'', Counted 1), (''UNVERIFIED'', Counted 1)],
         timestamp_cs = ''t3'' \<rparr>"
    unfolding r1 by (simp add: restamp_def)
  from n have n': "total_votes_sr r2 = 2" unfolding r1 by simp
  from b' d' n' show ?thesis by blast
qed

text \<open>
  C10. The claim is that the consensus computation never divides by zero and always returns.
  No divisor is ever zero; but \<open>calculateConsensus\<close> does not return for a vote whose
  verdict is the string \<open>__proto__\<close>: the assignment to \<open>verdictCounts\<close> creates no
  property, the list of entries is empty, and reading the count of the majority verdict
  throws a \<open>TypeError\<close>. The handler answers 500, with the vote in the table and no
  consensus stored.
\<close>

theorem C10_proto_vote_throws:
  "calculateConsensus ''t1'' [stored_row ''s1'' ''m1'' ''__proto__'' (1 / 2) (1 / 2) None]
     = Inl TypeError \<and>
   handleConsensusVote ''s1'' ''t1'' ''a1'' (post_vote ''m1'' proto_vote) fresh_env =
     (\<lparr> status_code = 500, body = Exception_body \<rparr>,
      fresh_env\<lparr> SHIELD_CONSENSUS := no_sessions(''c1'' :=
        \<lparr> votes_table = [stored_row ''s1'' ''m1'' ''__proto__'' (1 / 2) (1 / 2) None],
          state_consensus = None \<rparr>) \<rparr>)"
  by (simp add: single_snapshot handle_proto)

theorem C10_witness:
  "isl (calculateConsensus ''t1'' [stored_row ''s1'' ''m1'' ''__proto__'' (1 / 2) (1 / 2) None])
   \<and> status_code (fst (handleConsensusVote ''s1'' ''t1'' ''a1'' (post_vote ''m1'' proto_vote)
        fresh_env)) = 500"
  using C10_proto_vote_throws by simp


end
